theory Spec2Isabelle
  imports Complex_Main "HOL-Library.List_Lexorder"
begin

section \<open>Values\<close>

text \<open>
  A Python \<open>str\<close> is a sequence of Unicode code points: \<open>len\<close> counts code points and
  \<open>sorted\<close> compares them lexicographically. It is modelled as a list of code points, with
  the lexicographic order on lists. MongoDB's default (binary) string comparison orders
  strings the same way.
\<close>

type_synonym pystr = "nat list"

text \<open>A \<open>datetime.date\<close>: compared field by field, year first.\<close>

record date =
  year :: nat
  month :: nat
  day :: nat

definition date_less :: "date \<Rightarrow> date \<Rightarrow> bool" where
  "date_less a b \<longleftrightarrow>
     year a < year b \<or> (year a = year b \<and> (month a < month b \<or> (month a = month b \<and> day a < day b)))"

text \<open>
  A medicine document of the collection. Its fields are those of \<open>med_doc\<close> in
  \<open>_save_new_medicine\<close>, the only place that inserts, with the \<open>_id\<close> the database assigns
  (an ObjectId, here a number).
\<close>

record med =
  oid :: nat
  m_name :: pystr
  m_name_lower :: pystr
  m_quantity :: pystr
  m_notes :: pystr
  m_exp_date :: pystr
  m_added_by :: int

section \<open>Keyboards\<close>

definition MEDS_PER_PAGE :: int where
  "MEDS_PER_PAGE = 5"

text \<open>
  \<open>MedAction\<close> callback data. An \<open>item_id\<close> is the string form of an ObjectId; a string that
  is not one is \<open>NotOid\<close>.
\<close>

datatype item_id = OidStr nat | NotOid pystr

record MedAction =
  action :: string
  item_id :: "item_id option"
  item_name :: "pystr option"
  field :: "string option"
  page :: "int option"
  confirm :: "bool option"

definition MedAction_new :: "string \<Rightarrow> MedAction" where
  "MedAction_new a =
     \<lparr>action = a, item_id = None, item_name = None, field = None, page = None, confirm = None\<rparr>"

datatype callback = Med MedAction | Plain string

text \<open>Button captions, by what they are built from.\<close>

datatype caption =
    MedCaption pystr pystr pystr  \<comment> \<open>name (quantity) | exp_date\<close>
  | EmptyPageCaption
  | PrevCaption
  | PageInfoCaption int int  \<comment> \<open>current_page/total_pages\<close>
  | NextCaption
  | AddCaption
  | MainMenuCaption

record button =
  caption_of :: caption
  callback_data :: callback

type_synonym keyboard = "button list list"

text \<open>Python's \<open>xs[i:j]\<close> for integers \<open>i\<close> and \<open>j\<close>; negative indices count from the end.\<close>

definition py_slice :: "'a list \<Rightarrow> int \<Rightarrow> int \<Rightarrow> 'a list" where
  "py_slice xs i j =
     (let n = int (length xs);
          lo = (if i < 0 then max 0 (n + i) else min i n);
          hi = (if j < 0 then max 0 (n + j) else min j n)
      in take (nat (hi - lo)) (drop (nat lo) xs))"

definition med_button :: "med \<Rightarrow> button" where
  "med_button m =
     \<lparr>caption_of = MedCaption (m_name m) (m_quantity m) (m_exp_date m),
      callback_data = Med ((MedAction_new ''view'')\<lparr>item_id := Some (OidStr (oid m))\<rparr>)\<rparr>"

definition prev_button :: "int \<Rightarrow> button" where
  "prev_button current_page =
     \<lparr>caption_of = PrevCaption,
      callback_data = Med ((MedAction_new ''page'')\<lparr>page := Some (current_page - 1)\<rparr>)\<rparr>"

definition next_button :: "int \<Rightarrow> button" where
  "next_button current_page =
     \<lparr>caption_of = NextCaption,
      callback_data = Med ((MedAction_new ''page'')\<lparr>page := Some (current_page + 1)\<rparr>)\<rparr>"

definition total_pages_of :: "'a list \<Rightarrow> int" where
  "total_pages_of medicines = (int (length medicines) + MEDS_PER_PAGE - 1) div MEDS_PER_PAGE"

text \<open>
  \<open>get_medicine_list_keyboard\<close>. Every call in the source leaves \<open>page_size\<close> at its default
  \<open>MEDS_PER_PAGE\<close>.
\<close>

definition get_medicine_list_keyboard :: "med list \<Rightarrow> int \<Rightarrow> keyboard" where
  "get_medicine_list_keyboard medicines current_page =
     (let total_pages = total_pages_of medicines;
          start_index = (current_page - 1) * MEDS_PER_PAGE;
          end_index = start_index + MEDS_PER_PAGE;
          paginated_medicines = py_slice medicines start_index end_index;
          buttons =
            (if paginated_medicines \<noteq> [] then map (\<lambda>m. [med_button m]) paginated_medicines
             else [[\<lparr>caption_of = EmptyPageCaption, callback_data = Plain ''dummy''\<rparr>]]);
          page_buttons =
            (if current_page > 1 then [prev_button current_page] else []) @
            (if total_pages > 1
             then [\<lparr>caption_of = PageInfoCaption current_page total_pages,
                    callback_data = Plain ''dummy_page_info''\<rparr>]
             else []) @
            (if current_page < total_pages then [next_button current_page] else [])
      in buttons @
         (if page_buttons \<noteq> [] then [page_buttons] else []) @
         [[\<lparr>caption_of = AddCaption, callback_data = Med (MedAction_new ''add'')\<rparr>],
          [\<lparr>caption_of = MainMenuCaption, callback_data = Plain ''back_to_main_menu''\<rparr>]])"

text \<open>\<open>_get_user_medicines\<close>: the user's documents, sorted by \<open>name_lower\<close>.\<close>

definition get_user_medicines :: "int \<Rightarrow> med list \<Rightarrow> med list" where
  "get_user_medicines user_id docs =
     sort_key m_name_lower (filter (\<lambda>d. m_added_by d = user_id) docs)"



section \<open>Python values\<close>

subsection \<open>Truthiness\<close>

text \<open>
  \<open>state.get_data().get(k)\<close> yields \<open>None\<close> for a key that is absent or bound to \<open>None\<close>.
  In a condition, \<open>None\<close>, the integer 0 and the empty string count as false.
\<close>

datatype msg_id = IntId int | StrId pystr

definition truthy_int :: "int option \<Rightarrow> bool" where
  "truthy_int v = (case v of None \<Rightarrow> False | Some i \<Rightarrow> i \<noteq> 0)"

definition truthy_str :: "'a list option \<Rightarrow> bool" where
  "truthy_str v = (case v of None \<Rightarrow> False | Some s \<Rightarrow> s \<noteq> [])"

definition truthy_msg :: "msg_id option \<Rightarrow> bool" where
  "truthy_msg v =
     (case v of None \<Rightarrow> False | Some (IntId i) \<Rightarrow> i \<noteq> 0 | Some (StrId s) \<Rightarrow> s \<noteq> [])"

definition truthy_item :: "item_id option \<Rightarrow> bool" where
  "truthy_item v =
     (case v of None \<Rightarrow> False | Some (OidStr n) \<Rightarrow> True | Some (NotOid s) \<Rightarrow> s \<noteq> [])"

text \<open>Python's \<open>a or b\<close> on message identifiers.\<close>

definition or_msg :: "msg_id option \<Rightarrow> msg_id option \<Rightarrow> msg_id option" where
  "or_msg a b = (if truthy_msg a then a else b)"

text \<open>\<open>ObjectId(s)\<close>: \<open>None\<close> stands for the \<open>InvalidId\<close> it raises.\<close>

definition ObjectId :: "item_id \<Rightarrow> nat option" where
  "ObjectId s = (case s of OidStr n \<Rightarrow> Some n | NotOid x \<Rightarrow> None)"

subsection \<open>Strings\<close>

text \<open>The code points \<open>str.strip()\<close> removes (those for which \<open>str.isspace\<close> holds).\<close>

definition is_space :: "nat \<Rightarrow> bool" where
  "is_space c \<longleftrightarrow>
     (9 \<le> c \<and> c \<le> 13) \<or> (28 \<le> c \<and> c \<le> 32) \<or> c = 133 \<or> c = 160 \<or> c = 5760 \<or>
     (8192 \<le> c \<and> c \<le> 8202) \<or> c = 8232 \<or> c = 8233 \<or> c = 8239 \<or> c = 8287 \<or> c = 12288"

definition strip :: "pystr \<Rightarrow> pystr" where
  "strip s = rev (dropWhile is_space (rev (dropWhile is_space s)))"

subsection \<open>Dates\<close>

definition is_leap :: "nat \<Rightarrow> bool" where
  "is_leap y \<longleftrightarrow> y mod 4 = 0 \<and> (y mod 100 \<noteq> 0 \<or> y mod 400 = 0)"

definition days_in_month :: "nat \<Rightarrow> nat \<Rightarrow> nat" where
  "days_in_month y m =
     (if m = 2 then (if is_leap y then 29 else 28)
      else if m = 4 \<or> m = 6 \<or> m = 9 \<or> m = 11 then 30 else 31)"

definition valid_date :: "date \<Rightarrow> bool" where
  "valid_date d \<longleftrightarrow>
     1 \<le> year d \<and> year d \<le> 9999 \<and> 1 \<le> month d \<and> month d \<le> 12 \<and>
     1 \<le> day d \<and> day d \<le> days_in_month (year d) (month d)"

text \<open>\<open>datetime.date(y, m, d)\<close>: \<open>None\<close> stands for the \<open>ValueError\<close> of an impossible date.\<close>

definition make_date :: "int \<Rightarrow> int \<Rightarrow> int \<Rightarrow> date option" where
  "make_date y m d =
     (if 0 \<le> y \<and> 0 \<le> m \<and> 0 \<le> d \<and> valid_date \<lparr>year = nat y, month = nat m, day = nat d\<rparr>
      then Some \<lparr>year = nat y, month = nat m, day = nat d\<rparr> else None)"

text \<open>
  \<open>date.isoformat()\<close>, that is \<open>'%04d-%02d-%02d'\<close>: the year of a date has at most four
  digits, month and day at most two.
\<close>

definition digit_char :: "nat \<Rightarrow> nat" where
  "digit_char n = 48 + n mod 10"

definition isoformat :: "date \<Rightarrow> pystr" where
  "isoformat d =
     [digit_char (year d div 1000), digit_char (year d div 100), digit_char (year d div 10),
      digit_char (year d), 45,
      digit_char (month d div 10), digit_char (month d), 45,
      digit_char (day d div 10), digit_char (day d)]"

text \<open>
  \<open>datetime.datetime.strptime(s, "%Y-%m-%d").date()\<close>. The format becomes the regular
  expression \<open>(\d\d\d\d)-(1[0-2]|0[1-9]|[1-9])-(3[0-1]|[1-2]\d|0[1-9]|[1-9]| [1-9])\<close>, matched
  at the start of the string; the alternatives are tried in this order and the first
  match is taken, and text left after it is an error. \<open>\d\<close> is any Unicode decimal digit,
  whose value \<open>int\<close> reads: that table is the parameter \<open>dv\<close>. The bracketed classes are
  ASCII digits. \<open>None\<close> stands for \<open>ValueError\<close>.
\<close>

definition month_alternatives :: "pystr \<Rightarrow> (nat \<times> pystr) list" where
  "month_alternatives s =
     (case s of c1 # c2 # r \<Rightarrow> (if c1 = 49 \<and> 48 \<le> c2 \<and> c2 \<le> 50 then [(10 + (c2 - 48), r)] else []) | _ \<Rightarrow> []) @
     (case s of c1 # c2 # r \<Rightarrow> (if c1 = 48 \<and> 49 \<le> c2 \<and> c2 \<le> 57 then [(c2 - 48, r)] else []) | _ \<Rightarrow> []) @
     (case s of c1 # r \<Rightarrow> (if 49 \<le> c1 \<and> c1 \<le> 57 then [(c1 - 48, r)] else []) | _ \<Rightarrow> [])"

definition day_alternatives :: "(nat \<Rightarrow> nat option) \<Rightarrow> pystr \<Rightarrow> (nat \<times> pystr) list" where
  "day_alternatives dv s =
     (case s of c1 # c2 # r \<Rightarrow> (if c1 = 51 \<and> 48 \<le> c2 \<and> c2 \<le> 49 then [(30 + (c2 - 48), r)] else []) | _ \<Rightarrow> []) @
     (case s of c1 # c2 # r \<Rightarrow>
        (if 49 \<le> c1 \<and> c1 \<le> 50 then (case dv c2 of Some v \<Rightarrow> [(10 * (c1 - 48) + v, r)] | None \<Rightarrow> []) else [])
      | _ \<Rightarrow> []) @
     (case s of c1 # c2 # r \<Rightarrow> (if c1 = 48 \<and> 49 \<le> c2 \<and> c2 \<le> 57 then [(c2 - 48, r)] else []) | _ \<Rightarrow> []) @
     (case s of c1 # r \<Rightarrow> (if 49 \<le> c1 \<and> c1 \<le> 57 then [(c1 - 48, r)] else []) | _ \<Rightarrow> []) @
     (case s of c1 # c2 # r \<Rightarrow> (if c1 = 32 \<and> 49 \<le> c2 \<and> c2 \<le> 57 then [(c2 - 48, r)] else []) | _ \<Rightarrow> [])"

definition after_dash :: "pystr \<Rightarrow> pystr list" where
  "after_dash s = (case s of c # r \<Rightarrow> (if c = 45 then [r] else []) | [] \<Rightarrow> [])"

definition year_digits :: "(nat \<Rightarrow> nat option) \<Rightarrow> pystr \<Rightarrow> (nat \<times> pystr) list" where
  "year_digits dv s =
     (case s of c1 # c2 # c3 # c4 # r \<Rightarrow>
        (case (dv c1, dv c2, dv c3, dv c4) of
           (Some a, Some b, Some c, Some d) \<Rightarrow> [(1000 * a + 100 * b + 10 * c + d, r)]
         | _ \<Rightarrow> [])
      | _ \<Rightarrow> [])"

definition strptime_Ymd :: "(nat \<Rightarrow> nat option) \<Rightarrow> pystr \<Rightarrow> date option" where
  "strptime_Ymd dv s =
     (case concat (map (\<lambda>(y, r1). concat (map (\<lambda>r2. concat (map (\<lambda>(m, r3).
                 concat (map (\<lambda>r4. map (\<lambda>(d, r5). (y, m, d, r5)) (day_alternatives dv r4))
                   (after_dash r3)))
               (month_alternatives r2))) (after_dash r1))) (year_digits dv s)) of
        [] \<Rightarrow> None
      | (y, m, d, rest) # others \<Rightarrow>
          if rest \<noteq> [] then None else make_date (int y) (int m) (int d))"

text \<open>
  \<open>d + datetime.timedelta(days=n)\<close> for \<open>n \<ge> 0\<close>, as \<open>n\<close> steps to the following day;
  \<open>None\<close> stands for the \<open>OverflowError\<close> raised past 9999-12-31.
\<close>

definition next_day :: "date \<Rightarrow> date option" where
  "next_day d =
     (if day d < days_in_month (year d) (month d) then Some (d\<lparr>day := day d + 1\<rparr>)
      else if month d < 12 then Some \<lparr>year = year d, month = month d + 1, day = 1\<rparr>
      else if year d < 9999 then Some \<lparr>year = year d + 1, month = 1, day = 1\<rparr>
      else None)"

fun add_days :: "date \<Rightarrow> nat \<Rightarrow> date option" where
  "add_days d 0 = Some d"
| "add_days d (Suc n) = (case next_day d of None \<Rightarrow> None | Some e \<Rightarrow> add_days e n)"

section \<open>Environment\<close>

text \<open>
  What a handler reads from outside the program: the current date, the Unicode tables
  behind \<open>str.lower\<close>, \<open>\d\<close> and caseless matching, and the gateway's answers: the
  outcome of an edit, whether the message sent in its place goes through, and the
  identifier of a message sent. A gateway answer is indexed by the number of requests
  sent before it.
\<close>

datatype bad_request = NotModified | NotFoundOrInvalid | OtherBadRequest

datatype edit_response = Edited | TelegramBadRequest bad_request | OtherException

record env =
  today :: date
  str_lower :: "pystr \<Rightarrow> pystr"
  digit_value :: "nat \<Rightarrow> nat option"
  fold_case :: "nat \<Rightarrow> nat"
  edit_response :: "nat \<Rightarrow> edit_response"
  send_succeeds :: "nat \<Rightarrow> bool"
  new_message_id :: "nat \<Rightarrow> int"

section \<open>The medicine collection\<close>

text \<open>
  The MongoDB collection \<open>med_collection\<close>: its documents in natural order, the counter
  the next \<open>_id\<close> comes from, and whether the unique compound index on
  \<open>(added_by, name_lower)\<close> exists. The other indexes the program creates are not unique
  and change no result.
\<close>

record collection =
  docs :: "med list"
  next_oid :: nat
  unique_index :: bool

datatype exn =
    DuplicateKeyError
  | AttributeError
  | InvalidId
  | ValueError
  | OverflowError
  | OutsideSchema

definition index_key :: "med \<Rightarrow> int \<times> pystr" where
  "index_key d = (m_added_by d, m_name_lower d)"

text \<open>
  \<open>create_index([("added_by", 1), ("name_lower", 1)], unique=True)\<close>: building a unique
  index fails when two documents already share the key.
\<close>

definition create_unique_index :: "collection \<Rightarrow> exn + collection" where
  "create_unique_index c =
     (if distinct (map index_key (docs c)) then Inr (c\<lparr>unique_index := True\<rparr>)
      else Inl DuplicateKeyError)"

text \<open>
  \<open>create_db_indexes\<close>: the failure of the unique index is logged and start-up goes on.
\<close>

definition create_db_indexes :: "collection \<Rightarrow> collection" where
  "create_db_indexes c = (case create_unique_index c of Inr c' \<Rightarrow> c' | Inl e \<Rightarrow> c)"

definition find_one :: "(med \<Rightarrow> bool) \<Rightarrow> collection \<Rightarrow> med option" where
  "find_one query c = List.find query (docs c)"

text \<open>
  \<open>insert_one\<close>: the document gets a fresh \<open>_id\<close>; under the unique index a document whose
  key is taken is refused with \<open>DuplicateKeyError\<close>.
\<close>

definition insert_one :: "med \<Rightarrow> collection \<Rightarrow> exn + collection" where
  "insert_one doc c =
     (if unique_index c \<and> index_key doc \<in> set (map index_key (docs c))
      then Inl DuplicateKeyError
      else Inr (c\<lparr>docs := docs c @ [doc\<lparr>oid := next_oid c\<rparr>], next_oid := Suc (next_oid c)\<rparr>))"

text \<open>The \<open>$set\<close> documents the program builds: new values for string fields.\<close>

record med_update =
  u_name :: "pystr option"
  u_name_lower :: "pystr option"
  u_quantity :: "pystr option"
  u_notes :: "pystr option"
  u_exp_date :: "pystr option"

definition no_update :: med_update where
  "no_update =
     \<lparr>u_name = None, u_name_lower = None, u_quantity = None, u_notes = None, u_exp_date = None\<rparr>"

definition apply_set :: "med_update \<Rightarrow> med \<Rightarrow> med" where
  "apply_set u d =
     d\<lparr>m_name := (case u_name u of Some v \<Rightarrow> v | None \<Rightarrow> m_name d),
       m_name_lower := (case u_name_lower u of Some v \<Rightarrow> v | None \<Rightarrow> m_name_lower d),
       m_quantity := (case u_quantity u of Some v \<Rightarrow> v | None \<Rightarrow> m_quantity d),
       m_notes := (case u_notes u of Some v \<Rightarrow> v | None \<Rightarrow> m_notes d),
       m_exp_date := (case u_exp_date u of Some v \<Rightarrow> v | None \<Rightarrow> m_exp_date d)\<rparr>"

record update_result =
  matched_count :: nat
  modified_count :: nat

fun replace_first :: "(med \<Rightarrow> bool) \<Rightarrow> med \<Rightarrow> med list \<Rightarrow> med list" where
  "replace_first query new [] = []"
| "replace_first query new (d # ds) =
     (if query d then new # ds else d # replace_first query new ds)"

fun remove_first :: "(med \<Rightarrow> bool) \<Rightarrow> med list \<Rightarrow> med list" where
  "remove_first query [] = []"
| "remove_first query (d # ds) = (if query d then ds else d # remove_first query ds)"

text \<open>
  \<open>update_one(query, {"$set": u})\<close> changes the first document that matches. A document
  that already has the new values is matched but not modified. Under the unique index a
  change that would give two documents the same key is refused.
\<close>

definition update_one ::
  "(med \<Rightarrow> bool) \<Rightarrow> med_update \<Rightarrow> collection \<Rightarrow> exn + (update_result \<times> collection)" where
  "update_one query u c =
     (case List.find query (docs c) of
        None \<Rightarrow> Inr (\<lparr>matched_count = 0, modified_count = 0\<rparr>, c)
      | Some d \<Rightarrow>
          if apply_set u d = d then Inr (\<lparr>matched_count = 1, modified_count = 0\<rparr>, c)
          else if unique_index c \<and> index_key (apply_set u d) \<noteq> index_key d \<and>
                  index_key (apply_set u d) \<in> set (map index_key (docs c))
          then Inl DuplicateKeyError
          else Inr (\<lparr>matched_count = 1, modified_count = 1\<rparr>,
                    c\<lparr>docs := replace_first query (apply_set u d) (docs c)\<rparr>))"

text \<open>\<open>delete_one(query)\<close>: the number of documents deleted, and the collection.\<close>

definition delete_one :: "(med \<Rightarrow> bool) \<Rightarrow> collection \<Rightarrow> nat \<times> collection" where
  "delete_one query c =
     (case List.find query (docs c) of
        None \<Rightarrow> (0, c)
      | Some d \<Rightarrow> (1, c\<lparr>docs := remove_first query (docs c)\<rparr>))"

section \<open>Conversation state and gateway requests\<close>

text \<open>
  The states of \<open>AddMedicine\<close> and \<open>EditMedicine\<close>; no state is \<open>None\<close>. The data of a
  conversation is a dictionary of which the program uses the keys below; a key that is
  absent reads as \<open>None\<close>. \<open>calendar_message_id\<close> holds an integer or, for an inline
  message, a string.
\<close>

datatype fsm_state =
    waiting_for_name
  | waiting_for_quantity
  | waiting_for_notes
  | waiting_for_exp_date
  | waiting_for_new_value

record state_data =
  sd_prompt_chat_id :: "int option"
  sd_prompt_message_id :: "int option"
  sd_calendar_message_id :: "msg_id option"
  sd_calendar_year :: "int option"
  sd_calendar_month :: "int option"
  sd_name :: "pystr option"
  sd_name_lower :: "pystr option"
  sd_quantity :: "pystr option"
  sd_notes :: "pystr option"
  sd_exp_date :: "pystr option"
  sd_med_id :: "item_id option"
  sd_med_name :: "pystr option"
  sd_field_to_edit :: "string option"
  sd_user_id :: "int option"
  sd_inline_message_id :: "pystr option"

definition empty_data :: state_data where
  "empty_data =
     \<lparr>sd_prompt_chat_id = None, sd_prompt_message_id = None, sd_calendar_message_id = None,
      sd_calendar_year = None, sd_calendar_month = None, sd_name = None, sd_name_lower = None,
      sd_quantity = None, sd_notes = None, sd_exp_date = None, sd_med_id = None,
      sd_med_name = None, sd_field_to_edit = None, sd_user_id = None,
      sd_inline_message_id = None\<rparr>"

text \<open>The validation messages of the edit flow.\<close>

datatype edit_error =
    NameEmpty
  | NameExists pystr
  | QuantityEmpty
  | NotesEmpty
  | ExpDateInPast
  | ExpDateBadFormat

text \<open>The texts the program sends, by what they say and what they are built from.\<close>

datatype msg_text =
    MainMenuText
  | WelcomeText
  | DetailsText med
  | YourMedicinesText
  | ListEmptyText
  | ListPageText int int
  | IncompleteDataText
  | DuplicateOnInsertText pystr
  | SaveFailedText
  | UpdateNotFoundText
  | DetailsNotFoundText
  | InvalidIdText
  | DateBadFormatText
  | DateInPastText
  | RetryText edit_error
  | EditStateErrorText
  | AddStateErrorText
  | NothingToCancelText
  | CancelledText
  | DateErrorText
  | DatePastAlertText
  | DateChosenText pystr
  | DeletedText
  | DeleteFailedText
  | DeleteIdMissingText
  | DeleteRequestErrorText
  | TrashText
  | PhotoReceivedText
  | PhotoDownloadFailedText
  | BarcodeNotRecognisedText
  | BarcodeSearchingText pystr
  | BarcodeFetchFailedText pystr
  | BarcodeNoNamesText pystr
  | BarcodeNameExistsText pystr
  | BarcodeNameAcceptedText pystr

datatype markup =
    NoMarkup
  | MainMenuKeyboard
  | CancelKeyboard
  | ListKeyboard keyboard
  | DetailsKeyboard item_id bool
  | ConfirmBarcodeUpdateKeyboard pystr
  | ReplyKeyboardRemove

text \<open>
  A message is addressed by chat and message identifier, or by the identifier of an
  inline message.
\<close>

datatype target = Ordinary int msg_id | Inline pystr

datatype request =
    EditMessageText target msg_text markup  \<comment> \<open>\<open>bot.edit_message_text\<close>\<close>
  | SendMessage int msg_text markup  \<comment> \<open>\<open>bot.send_message\<close>\<close>
  | Reply msg_text  \<comment> \<open>\<open>message.reply\<close>\<close>
  | Answer msg_text markup  \<comment> \<open>\<open>message.answer\<close>\<close>
  | DeleteMessage  \<comment> \<open>\<open>message.delete\<close>, of the user's message\<close>
  | AnswerCallback "msg_text option" bool  \<comment> \<open>\<open>callback.answer(text, show_alert)\<close>\<close>

datatype log_event =
    IncompleteDataLog
  | AddedLog pystr
  | DuplicateKeyLog pystr
  | UpdateNotFoundLog
  | UpdatedLog
  | MatchedNotModifiedLog
  | NoDataToUpdateLog

text \<open>
  One conversation and the collection: the state and data of the conversation, the
  collection, the requests sent to the gateway so far, and the log lines that report an
  outcome. A request other than an edit is recorded and taken to succeed.
\<close>

record world =
  cur_state :: "fsm_state option"
  cur_data :: state_data
  coll :: collection
  sent :: "request list"
  logged :: "log_event list"

definition emit :: "request \<Rightarrow> world \<Rightarrow> world" where
  "emit r w = w\<lparr>sent := sent w @ [r]\<rparr>"

definition log_line :: "log_event \<Rightarrow> world \<Rightarrow> world" where
  "log_line e w = w\<lparr>logged := logged w @ [e]\<rparr>"

text \<open>\<open>state.clear()\<close>\<close>

definition clear :: "world \<Rightarrow> world" where
  "clear w = w\<lparr>cur_state := None, cur_data := empty_data\<rparr>"

section \<open>Rendering\<close>

text \<open>
  \<open>safe_edit_message\<close>: returns \<open>False\<close> at once when neither a chat and message
  nor an inline identifier is given; edits the inline message if an inline identifier
  is given, else the ordinary message. "Not modified" counts as success; when the message is not found,
  too old or invalid and a chat is known, the text is sent as a new message.
\<close>

definition edit_target :: "int option \<Rightarrow> msg_id option \<Rightarrow> pystr option \<Rightarrow> target option" where
  "edit_target chat_id message_id inline_message_id =
     (if truthy_str inline_message_id then map_option Inline inline_message_id
      else if truthy_int chat_id \<and> truthy_msg message_id
      then (case (chat_id, message_id) of (Some c, Some m) \<Rightarrow> Some (Ordinary c m) | _ \<Rightarrow> None)
      else None)"

definition safe_edit_message ::
  "env \<Rightarrow> msg_text \<Rightarrow> int option \<Rightarrow> msg_id option \<Rightarrow> pystr option \<Rightarrow> markup \<Rightarrow> world \<Rightarrow> bool \<times> world" where
  "safe_edit_message e txt chat_id message_id inline_message_id reply_markup w =
     (case edit_target chat_id message_id inline_message_id of
        None \<Rightarrow> (False, w)
      | Some tgt \<Rightarrow>
         (let w1 = emit (EditMessageText tgt txt reply_markup) w
          in case edit_response e (length (sent w)) of
               Edited \<Rightarrow> (True, w1)
             | TelegramBadRequest NotModified \<Rightarrow> (True, w1)
             | TelegramBadRequest NotFoundOrInvalid \<Rightarrow>
                 (case chat_id of
                    None \<Rightarrow> (False, w1)
                  | Some c \<Rightarrow>
                      if c = 0 then (False, w1)
                      else (send_succeeds e (length (sent w1)),
                            emit (SendMessage c txt reply_markup) w1))
             | TelegramBadRequest OtherBadRequest \<Rightarrow> (False, w1)
             | OtherException \<Rightarrow> (False, w1)))"

definition show_main_menu_message ::
  "env \<Rightarrow> int option \<Rightarrow> msg_id option \<Rightarrow> pystr option \<Rightarrow> world \<Rightarrow> world" where
  "show_main_menu_message e chat_id message_id inline_message_id w =
     snd (safe_edit_message e MainMenuText chat_id message_id inline_message_id MainMenuKeyboard w)"

definition show_user_medicine_list ::
  "env \<Rightarrow> int \<Rightarrow> int option \<Rightarrow> msg_id option \<Rightarrow> int \<Rightarrow> world \<Rightarrow> world" where
  "show_user_medicine_list e user_id chat_id message_id pg w =
     (let medicines = get_user_medicines user_id (docs (coll w));
          kb = get_medicine_list_keyboard medicines pg;
          txt = (if medicines \<noteq> [] then YourMedicinesText else ListEmptyText);
          total_pages = total_pages_of medicines;
          txt = (if total_pages > 1 then ListPageText pg total_pages else txt)
      in snd (safe_edit_message e txt chat_id message_id None (ListKeyboard kb) w))"

text \<open>\<open>view_medicine_details\<close>\<close>

definition view_medicine_details ::
  "env \<Rightarrow> item_id \<Rightarrow> int \<Rightarrow> int option \<Rightarrow> msg_id option \<Rightarrow> pystr option \<Rightarrow> world \<Rightarrow> world" where
  "view_medicine_details e med_id user_id chat_id message_id inline_message_id w =
     (let is_inline = truthy_str inline_message_id
      in if \<not> (truthy_int chat_id \<and> truthy_msg message_id) \<and> \<not> truthy_str inline_message_id
         then w
         else
           case ObjectId med_id of
             None \<Rightarrow>
               snd (safe_edit_message e InvalidIdText chat_id message_id inline_message_id NoMarkup w)
           | Some object_id \<Rightarrow>
               (case find_one (\<lambda>d. oid d = object_id \<and> m_added_by d = user_id) (coll w) of
                  None \<Rightarrow>
                    if is_inline
                    then snd (safe_edit_message e DetailsNotFoundText None None inline_message_id
                                MainMenuKeyboard w)
                    else if truthy_int chat_id \<and> truthy_msg message_id
                    then show_user_medicine_list e user_id chat_id message_id 1
                           (snd (safe_edit_message e DetailsNotFoundText chat_id message_id None
                                   NoMarkup w))
                    else w
                | Some medicine \<Rightarrow>
                    snd (safe_edit_message e (DetailsText medicine) chat_id message_id
                           inline_message_id (DetailsKeyboard med_id is_inline) w)))"

section \<open>The add flow: expiry date and commit\<close>

text \<open>
  \<open>_save_new_medicine\<close>. The document handed to \<open>insert_one\<close> has no \<open>_id\<close> yet (here
  0, which \<open>insert_one\<close> replaces). In this model \<open>insert_one\<close> raises nothing but
  \<open>DuplicateKeyError\<close>, so the last \<open>except\<close> clause has no case.
\<close>

definition med_doc_of :: "state_data \<Rightarrow> int \<Rightarrow> med option" where
  "med_doc_of user_data user_id =
     (case (sd_name user_data, sd_name_lower user_data, sd_quantity user_data,
            sd_notes user_data, sd_exp_date user_data) of
        (Some n, Some nl, Some q, Some nt, Some ex) \<Rightarrow>
          Some \<lparr>oid = 0, m_name = n, m_name_lower = nl, m_quantity = q, m_notes = nt,
                m_exp_date = ex, m_added_by = user_id\<rparr>
      | _ \<Rightarrow> None)"

definition all_collected :: "state_data \<Rightarrow> bool" where
  "all_collected user_data =
     list_all truthy_str
       [sd_name user_data, sd_name_lower user_data, sd_quantity user_data, sd_notes user_data,
        sd_exp_date user_data]"

definition save_new_medicine ::
  "env \<Rightarrow> int \<Rightarrow> int option \<Rightarrow> msg_id option \<Rightarrow> world \<Rightarrow> world" where
  "save_new_medicine e user_id chat_id message_id w =
     (let user_data = cur_data w;
          incomplete =
            (let w1 = clear (log_line IncompleteDataLog w)
             in if truthy_int chat_id \<and> truthy_msg message_id
                then snd (safe_edit_message e IncompleteDataText chat_id message_id None
                            MainMenuKeyboard w1)
                else w1)
      in if \<not> all_collected user_data then incomplete
         else
           case med_doc_of user_data user_id of
             None \<Rightarrow> incomplete
           | Some med_doc \<Rightarrow>
               (case insert_one med_doc (coll w) of
                  Inr c \<Rightarrow>
                    let w1 = clear (log_line (AddedLog (m_name med_doc)) (w\<lparr>coll := c\<rparr>))
                    in if truthy_int chat_id \<and> truthy_msg message_id
                       then show_user_medicine_list e user_id chat_id message_id 1 w1
                       else w1
                | Inl err \<Rightarrow>
                    let w1 = clear (log_line (DuplicateKeyLog (m_name med_doc)) w)
                    in if truthy_int chat_id \<and> truthy_msg message_id
                       then snd (safe_edit_message e (DuplicateOnInsertText (m_name med_doc))
                                   chat_id message_id None MainMenuKeyboard w1)
                       else w1))"

text \<open>\<open>process_medicine_exp_date_text\<close>: a typed date in state \<open>waiting_for_exp_date\<close>.\<close>

definition process_medicine_exp_date_text :: "env \<Rightarrow> int \<Rightarrow> pystr \<Rightarrow> world \<Rightarrow> world" where
  "process_medicine_exp_date_text e user_id message_text w =
     (let exp_date_str = strip message_text;
          state_data = cur_data w;
          calendar_msg_id = sd_calendar_message_id state_data;
          prompt_chat_id = sd_prompt_chat_id state_data
      in case strptime_Ymd (digit_value e) exp_date_str of
           None \<Rightarrow> emit (Reply DateBadFormatText) w
         | Some exp_date_obj \<Rightarrow>
             if date_less exp_date_obj (today e) then emit (Reply DateInPastText) w
             else
               let w1 = w\<lparr>cur_data := (cur_data w)\<lparr>sd_exp_date := Some (isoformat exp_date_obj)\<rparr>\<rparr>;
                   w2 = emit DeleteMessage w1
               in save_new_medicine e user_id prompt_chat_id calendar_msg_id w2)"

section \<open>The edit flow\<close>

datatype new_value = NoValue | StrValue pystr | DateValue date

definition upd_has_key :: "string \<Rightarrow> med_update \<Rightarrow> bool" where
  "upd_has_key k u \<longleftrightarrow>
     (k = ''name'' \<and> u_name u \<noteq> None) \<or> (k = ''name_lower'' \<and> u_name_lower u \<noteq> None) \<or>
     (k = ''quantity'' \<and> u_quantity u \<noteq> None) \<or> (k = ''notes'' \<and> u_notes u \<noteq> None) \<or>
     (k = ''exp_date'' \<and> u_exp_date u \<noteq> None)"

definition upd_put :: "string \<Rightarrow> pystr \<Rightarrow> med_update \<Rightarrow> med_update option" where
  "upd_put k v u =
     (if k = ''name'' then Some (u\<lparr>u_name := Some v\<rparr>)
      else if k = ''name_lower'' then Some (u\<lparr>u_name_lower := Some v\<rparr>)
      else if k = ''quantity'' then Some (u\<lparr>u_quantity := Some v\<rparr>)
      else if k = ''notes'' then Some (u\<lparr>u_notes := Some v\<rparr>)
      else if k = ''exp_date'' then Some (u\<lparr>u_exp_date := Some v\<rparr>)
      else None)"

text \<open>
  The two lines of \<open>_save_edited_medicine\<close> that complete the update from \<open>new_value\<close>.
  Storing a date object, or a value under a key that is not one of the string fields,
  leaves the document schema of this model: the result is \<open>None\<close>. Neither caller gets
  there (they pass the key already in the update, or no value).
\<close>

definition merge_new_value :: "string \<Rightarrow> new_value \<Rightarrow> med_update \<Rightarrow> med_update option" where
  "merge_new_value field_to_edit v u =
     (case v of
        DateValue d \<Rightarrow>
          if field_to_edit = ''exp_date'' then Some (u\<lparr>u_exp_date := Some (isoformat d)\<rparr>)
          else if upd_has_key field_to_edit u then Some u
          else None
      | StrValue s \<Rightarrow> if upd_has_key field_to_edit u then Some u else upd_put field_to_edit s u
      | NoValue \<Rightarrow> Some u)"

text \<open>
  The end of \<open>_save_edited_medicine\<close>, from the result of \<open>update_one\<close> on: the three
  outcomes not found, modified, and matched but not modified.
\<close>

definition save_edited_outcome ::
  "env \<Rightarrow> update_result \<Rightarrow> int \<Rightarrow> item_id \<Rightarrow> int option \<Rightarrow> msg_id option \<Rightarrow> pystr option \<Rightarrow>
   world \<Rightarrow> world" where
  "save_edited_outcome e result user_id med_id chat_id message_id inline_message_id w =
     (if matched_count result = 0 then
        let w1 = log_line UpdateNotFoundLog w
        in if truthy_str inline_message_id
           then show_main_menu_message e None None inline_message_id
                  (snd (safe_edit_message e UpdateNotFoundText None None inline_message_id
                          NoMarkup w1))
           else if truthy_int chat_id \<and> truthy_msg message_id
           then show_user_medicine_list e user_id chat_id message_id 1
                  (snd (safe_edit_message e UpdateNotFoundText chat_id message_id None
                          NoMarkup w1))
           else w1
      else if modified_count result \<noteq> 0 then
        view_medicine_details e med_id user_id chat_id message_id inline_message_id
          (log_line UpdatedLog w)
      else
        view_medicine_details e med_id user_id chat_id message_id inline_message_id
          (log_line MatchedNotModifiedLog w))"

text \<open>
  \<open>_save_edited_medicine\<close>. The result pairs the exception the call raises, if any, with
  the world at that point. \<open>current_med.get\<close> on \<open>None\<close> raises \<open>AttributeError\<close>.
\<close>

definition save_edited_medicine ::
  "env \<Rightarrow> int \<Rightarrow> item_id \<Rightarrow> string \<Rightarrow> new_value \<Rightarrow> med_update \<Rightarrow> int option \<Rightarrow> msg_id option \<Rightarrow>
   pystr option \<Rightarrow> world \<Rightarrow> exn option \<times> world" where
  "save_edited_medicine e user_id med_id field_to_edit v update_data_dict chat_id message_id
     inline_message_id w =
     (case ObjectId med_id of
        None \<Rightarrow> (None, clear w)
      | Some object_id \<Rightarrow>
         (let find_query = (\<lambda>d. oid d = object_id \<and> m_added_by d = user_id)
          in case find_one find_query (coll w) of
               None \<Rightarrow> (Some AttributeError, w)
             | Some current_med \<Rightarrow>
                 (case merge_new_value field_to_edit v update_data_dict of
                    None \<Rightarrow> (Some OutsideSchema, w)
                  | Some u \<Rightarrow>
                      if u = no_update
                      then (None,
                            view_medicine_details e med_id user_id chat_id message_id
                              inline_message_id (clear (log_line NoDataToUpdateLog w)))
                      else
                        (case update_one find_query u (coll w) of
                           Inl err \<Rightarrow> (Some err, w)
                         | Inr (result, c) \<Rightarrow>
                             (None,
                              save_edited_outcome e result user_id med_id chat_id message_id
                                inline_message_id (clear (w\<lparr>coll := c\<rparr>)))))))"

text \<open>
  The validation of \<open>process_new_value_text\<close>: the error message, the update and the
  validated value. \<open>ObjectId(med_id)\<close> in the name query raises \<open>InvalidId\<close>.
\<close>

definition validate_new_value ::
  "env \<Rightarrow> int \<Rightarrow> item_id \<Rightarrow> string \<Rightarrow> pystr \<Rightarrow> collection \<Rightarrow>
   exn + (edit_error option \<times> med_update \<times> new_value)" where
  "validate_new_value e user_id med_id field_to_edit new_value_str c =
     (if field_to_edit = ''name'' then
        (if new_value_str = [] then Inr (Some NameEmpty, no_update, NoValue)
         else
           let new_value_lower = str_lower e new_value_str
           in case ObjectId med_id of
                None \<Rightarrow> Inl InvalidId
              | Some object_id \<Rightarrow>
                  (case find_one (\<lambda>d. m_name_lower d = new_value_lower \<and> m_added_by d = user_id \<and>
                                       oid d \<noteq> object_id) c of
                     Some existing_med_user \<Rightarrow> Inr (Some (NameExists new_value_str), no_update, NoValue)
                   | None \<Rightarrow>
                       Inr (None,
                            no_update\<lparr>u_name := Some new_value_str,
                                      u_name_lower := Some new_value_lower\<rparr>,
                            StrValue new_value_str)))
      else if field_to_edit = ''quantity'' then
        (if new_value_str = [] then Inr (Some QuantityEmpty, no_update, NoValue)
         else Inr (None, no_update\<lparr>u_quantity := Some new_value_str\<rparr>, StrValue new_value_str))
      else if field_to_edit = ''notes'' then
        (if new_value_str = [] then Inr (Some NotesEmpty, no_update, NoValue)
         else Inr (None, no_update\<lparr>u_notes := Some new_value_str\<rparr>, StrValue new_value_str))
      else if field_to_edit = ''exp_date'' then
        (case strptime_Ymd (digit_value e) new_value_str of
           None \<Rightarrow> Inr (Some ExpDateBadFormat, no_update, NoValue)
         | Some dt \<Rightarrow>
             if date_less dt (today e) then Inr (Some ExpDateInPast, no_update, NoValue)
             else Inr (None, no_update\<lparr>u_exp_date := Some (isoformat dt)\<rparr>, DateValue dt))
      else Inr (None, no_update, NoValue))"

text \<open>\<open>process_new_value_text\<close>: a typed value in state \<open>waiting_for_new_value\<close>.\<close>

definition process_new_value_text :: "env \<Rightarrow> int \<Rightarrow> pystr \<Rightarrow> world \<Rightarrow> exn option \<times> world" where
  "process_new_value_text e user_id message_text w =
     (let new_value_str = strip message_text;
          state_data = cur_data w;
          med_id = sd_med_id state_data;
          med_name_original = sd_med_name state_data;
          field_to_edit = sd_field_to_edit state_data;
          prompt_msg_id = sd_prompt_message_id state_data;
          prompt_chat_id = sd_prompt_chat_id state_data;
          calendar_msg_id = sd_calendar_message_id state_data;
          inline_msg_id = sd_inline_message_id state_data;
          message_id_to_restore = or_msg calendar_msg_id (map_option IntId prompt_msg_id);
          chat_id_to_restore = prompt_chat_id;
          state_ok =
            (truthy_item med_id \<and> truthy_str med_name_original \<and> truthy_str field_to_edit) \<and>
            ((truthy_int chat_id_to_restore \<and> truthy_msg message_id_to_restore) \<or>
             truthy_str inline_msg_id)
      in case (if state_ok then med_id else None, field_to_edit) of
           (Some mid, Some fld) \<Rightarrow>
             (case validate_new_value e user_id mid fld new_value_str (coll w) of
                Inl err \<Rightarrow> (Some err, w)
              | Inr (Some error_message, u, v) \<Rightarrow> (None, emit (Reply (RetryText error_message)) w)
              | Inr (None, u, v) \<Rightarrow>
                  save_edited_medicine e user_id mid fld v u chat_id_to_restore
                    message_id_to_restore inline_msg_id (emit DeleteMessage w))
         | _ \<Rightarrow>
             let w1 = emit (Reply EditStateErrorText) (clear w)
             in (None,
                 if truthy_str inline_msg_id
                 then show_main_menu_message e None None inline_msg_id w1
                 else if truthy_int chat_id_to_restore \<and> truthy_msg message_id_to_restore
                 then show_main_menu_message e chat_id_to_restore message_id_to_restore None w1
                 else w1))"

section \<open>Calendar day selection\<close>

text \<open>What a handler reads of a callback query: the message it came from, or the inline message.\<close>

record callback_query =
  cb_message :: "(int \<times> int) option"
  cb_inline_message_id :: "pystr option"

text \<open>
  \<open>handle_date_select\<close>, with the year, month and day of the \<open>CalendarNav\<close> callback
  data. It runs in every state.
\<close>

definition handle_date_select ::
  "env \<Rightarrow> int \<Rightarrow> callback_query \<Rightarrow> int \<Rightarrow> int \<Rightarrow> int option \<Rightarrow> world \<Rightarrow> exn option \<times> world" where
  "handle_date_select e user_id callback y m dy w =
     (case dy of
        None \<Rightarrow> (None, emit (AnswerCallback (Some DateErrorText) True) w)
      | Some d \<Rightarrow>
          (case make_date y m d of
             None \<Rightarrow> (Some ValueError, w)
           | Some selected_date \<Rightarrow>
               if date_less selected_date (today e)
               then (None, emit (AnswerCallback (Some DatePastAlertText) True) w)
               else
                 let w1 = emit (AnswerCallback (Some (DateChosenText (isoformat selected_date))) False) w;
                     w2 = w1\<lparr>cur_data := (cur_data w1)\<lparr>sd_exp_date := Some (isoformat selected_date)\<rparr>\<rparr>;
                     current_state_str = cur_state w2;
                     state_data = cur_data w2;
                     prompt_chat_id = sd_prompt_chat_id state_data;
                     calendar_message_id = sd_calendar_message_id state_data;
                     inline_msg_id = sd_inline_message_id state_data;
                     chat_id_to_use = prompt_chat_id;
                     message_id_to_use =
                       (case calendar_message_id of Some (IntId i) \<Rightarrow> Some (IntId i) | _ \<Rightarrow> None);
                     inline_id_to_use = inline_msg_id
                 in if current_state_str = Some waiting_for_exp_date then
                      (if truthy_int chat_id_to_use \<and> truthy_msg message_id_to_use
                       then (None, save_new_medicine e user_id chat_id_to_use message_id_to_use w2)
                       else (None, clear w2))
                    else if current_state_str = Some waiting_for_new_value then
                      (case (if truthy_item (sd_med_id state_data) then sd_med_id state_data else None) of
                         None \<Rightarrow> (None, clear w2)
                       | Some med_id \<Rightarrow>
                           if sd_field_to_edit state_data = Some ''exp_date''
                           then save_edited_medicine e user_id med_id ''exp_date''
                                  (DateValue selected_date)
                                  (no_update\<lparr>u_exp_date := Some (isoformat selected_date)\<rparr>)
                                  chat_id_to_use message_id_to_use inline_id_to_use w2
                           else
                             (None,
                              if truthy_str inline_id_to_use
                              then show_main_menu_message e None None inline_id_to_use (clear w2)
                              else if truthy_int chat_id_to_use \<and> truthy_msg message_id_to_use
                              then show_main_menu_message e chat_id_to_use message_id_to_use None
                                     (clear w2)
                              else clear w2))
                    else
                      (None,
                       if truthy_str inline_id_to_use
                       then show_main_menu_message e None None inline_id_to_use (clear w2)
                       else
                         (case cb_message callback of
                            Some (c, mid) \<Rightarrow>
                              show_main_menu_message e (Some c) (Some (IntId mid)) None (clear w2)
                          | None \<Rightarrow> clear w2))))"

section \<open>Cancelling\<close>

definition start_handler :: "world \<Rightarrow> world" where
  "start_handler w = emit (Answer WelcomeText MainMenuKeyboard) w"

text \<open>\<open>cancel_handler\<close>: the \<open>/cancel\<close> command, or the typed cancel word, in any state.\<close>

definition cancel_handler :: "env \<Rightarrow> world \<Rightarrow> world" where
  "cancel_handler e w =
     (case cur_state w of
        None \<Rightarrow> emit (Answer NothingToCancelText ReplyKeyboardRemove) w
      | Some current_state \<Rightarrow>
          let user_data = cur_data w;
              message_id_to_edit =
                or_msg (sd_calendar_message_id user_data)
                  (map_option IntId (sd_prompt_message_id user_data));
              inline_message_id_to_edit = sd_inline_message_id user_data;
              chat_id_to_edit = sd_prompt_chat_id user_data;
              w1 = emit DeleteMessage (clear w)
          in if truthy_str inline_message_id_to_edit
             then show_main_menu_message e None None inline_message_id_to_edit w1
             else if truthy_int chat_id_to_edit \<and> truthy_msg message_id_to_edit
             then show_main_menu_message e chat_id_to_edit message_id_to_edit None w1
             else start_handler (emit (Answer CancelledText ReplyKeyboardRemove) w1))"

text \<open>\<open>cancel_action_callback\<close>: the cancel button, in any state.\<close>

definition cancel_action_callback :: "env \<Rightarrow> callback_query \<Rightarrow> world \<Rightarrow> world" where
  "cancel_action_callback e callback w =
     (case cur_state w of
        None \<Rightarrow>
          emit (AnswerCallback None False)
            (case cb_message callback of
               Some (c, mid) \<Rightarrow> show_main_menu_message e (Some c) (Some (IntId mid)) None w
             | None \<Rightarrow>
                 if truthy_str (cb_inline_message_id callback)
                 then show_main_menu_message e None None (cb_inline_message_id callback) w
                 else w)
      | Some current_state \<Rightarrow>
          let user_data = cur_data w;
              chat_id = sd_prompt_chat_id user_data;
              message_id =
                or_msg (sd_calendar_message_id user_data)
                  (map_option IntId (sd_prompt_message_id user_data));
              inline_message_id = sd_inline_message_id user_data;
              w1 = clear w
          in if truthy_str inline_message_id
             then emit (AnswerCallback (Some CancelledText) False)
                    (show_main_menu_message e None None inline_message_id w1)
             else if truthy_int chat_id \<and> truthy_msg message_id
             then emit (AnswerCallback (Some CancelledText) False)
                    (show_main_menu_message e chat_id message_id None w1)
             else emit (AnswerCallback (Some CancelledText) False) w1)"

section \<open>Deleting\<close>

text \<open>
  \<open>delete_medicine_confirm\<close>, in no state. A failure to read the name, of a bad
  identifier or of a document that is gone, is caught and skips the deletion.
\<close>

definition delete_medicine_confirm ::
  "env \<Rightarrow> int \<Rightarrow> callback_query \<Rightarrow> item_id option \<Rightarrow> world \<Rightarrow> world" where
  "delete_medicine_confirm e user_id callback med_id w =
     (let chat_id = map_option fst (cb_message callback);
          message_id = map_option (IntId \<circ> snd) (cb_message callback);
          inline_message_id = cb_inline_message_id callback
      in case (if truthy_item med_id then med_id else None) of
           None \<Rightarrow> emit (AnswerCallback (Some DeleteIdMissingText) True) w
         | Some mid \<Rightarrow>
             if \<not> ((truthy_int chat_id \<and> truthy_msg message_id) \<or> truthy_str inline_message_id)
             then emit (AnswerCallback (Some DeleteRequestErrorText) True) w
             else
               let object_id =
                     (case ObjectId mid of
                        None \<Rightarrow> None
                      | Some ob \<Rightarrow>
                          (case find_one (\<lambda>d. oid d = ob \<and> m_added_by d = user_id) (coll w) of
                             None \<Rightarrow> None
                           | Some med_to_delete \<Rightarrow> Some ob));
                   (deleted_count, c) =
                     (case object_id of
                        None \<Rightarrow> (0, coll w)
                      | Some ob \<Rightarrow> delete_one (\<lambda>d. oid d = ob \<and> m_added_by d = user_id) (coll w));
                   w1 = w\<lparr>coll := c\<rparr>
               in if deleted_count \<noteq> 0 then
                    (let w2 = emit (AnswerCallback (Some DeletedText) False) w1
                     in if truthy_str inline_message_id
                        then snd (safe_edit_message e TrashText None None inline_message_id NoMarkup w2)
                        else if truthy_int chat_id \<and> truthy_msg message_id
                        then show_user_medicine_list e user_id chat_id message_id 1 w2
                        else w2)
                  else
                    (let w2 = emit (AnswerCallback (Some DeleteFailedText) True) w1
                     in if truthy_str inline_message_id
                        then view_medicine_details e mid user_id None None inline_message_id w2
                        else if truthy_int chat_id \<and> truthy_msg message_id
                        then show_user_medicine_list e user_id chat_id message_id 1 w2
                        else w2))"

section \<open>Barcode names\<close>

text \<open>
  What \<open>parse_barcode_html\<close> reads of a page: the rows of the table of class
  \<open>randomBarcodes\<close>, each row the stripped texts of its cells, or \<open>None\<close> when the page has
  no such table. The names are the third cells of the rows after the header, without the
  empty ones, as a sorted list without duplicates.
\<close>

type_synonym barcode_page = "pystr list list option"

definition parse_barcode_html :: "barcode_page \<Rightarrow> pystr list" where
  "parse_barcode_html html_content =
     (case html_content of
        None \<Rightarrow> []
      | Some rows \<Rightarrow>
          if length rows \<le> 1 then []
          else
            let names =
                  concat (map (\<lambda>cols. if length cols \<ge> 3
                                      then (if cols ! 2 \<noteq> [] then [cols ! 2] else [])
                                      else [])
                            (tl rows))
            in sort (remdups names))"

text \<open>
  \<open>min(xs, key=f)\<close>: the first element at which the key is least; \<open>None\<close> stands for the
  \<open>ValueError\<close> on an empty list.
\<close>

fun min_from :: "('a \<Rightarrow> nat) \<Rightarrow> 'a \<Rightarrow> 'a list \<Rightarrow> 'a" where
  "min_from key best [] = best"
| "min_from key best (x # xs) =
     (if key x < key best then min_from key x xs else min_from key best xs)"

definition py_min :: "('a \<Rightarrow> nat) \<Rightarrow> 'a list \<Rightarrow> 'a option" where
  "py_min key xs = (case xs of [] \<Rightarrow> None | x # r \<Rightarrow> Some (min_from key x r))"

text \<open>
  What the photo handler gets from outside: whether the photo was downloaded, the barcode
  decoded from it, and the page fetched for that barcode (\<open>None\<close> when the fetch fails or
  the page is empty).
\<close>

record photo_lookup =
  downloaded :: bool
  decoded_barcode :: "pystr option"
  fetched_page :: "barcode_page option"

text \<open>
  \<open>process_medicine_name_photo\<close>: a photo in state \<open>waiting_for_name\<close>. First its last
  part, from the choice of the shortest name on.
\<close>

definition use_shortest_name ::
  "env \<Rightarrow> int \<Rightarrow> int option \<Rightarrow> msg_id option \<Rightarrow> pystr \<Rightarrow> world \<Rightarrow> world" where
  "use_shortest_name e user_id prompt_chat_id prompt_msg_id shortest_name w =
     (let name_lower = str_lower e shortest_name
      in case find_one (\<lambda>d. m_name_lower d = name_lower \<and> m_added_by d = user_id) (coll w) of
           Some existing_med_user \<Rightarrow>
             snd (safe_edit_message e (BarcodeNameExistsText shortest_name) prompt_chat_id
                    prompt_msg_id None (ConfirmBarcodeUpdateKeyboard shortest_name) w)
         | None \<Rightarrow>
             (let w1 = w\<lparr>cur_data := (cur_data w)\<lparr>sd_name := Some shortest_name,
                                                  sd_name_lower := Some name_lower\<rparr>,
                         cur_state := Some waiting_for_quantity\<rparr>;
                  r = safe_edit_message e (BarcodeNameAcceptedText shortest_name) prompt_chat_id
                        prompt_msg_id None CancelKeyboard w1;
                  edit_successful = fst r;
                  w2 = snd r
              in if \<not> edit_successful
                 then (case prompt_chat_id of
                         None \<Rightarrow> w2
                       | Some c \<Rightarrow>
                           (emit (SendMessage c (BarcodeNameAcceptedText shortest_name)
                                    CancelKeyboard) w2)
                             \<lparr>cur_data := (cur_data w2)
                                \<lparr>sd_prompt_message_id :=
                                   Some (new_message_id e (length (sent w2)))\<rparr>\<rparr>)
                 else w2))"

definition process_medicine_name_photo :: "env \<Rightarrow> int \<Rightarrow> photo_lookup \<Rightarrow> world \<Rightarrow> world" where
  "process_medicine_name_photo e user_id photo w =
     (let state_data = cur_data w;
          prompt_msg_id = map_option IntId (sd_prompt_message_id state_data);
          prompt_chat_id = sd_prompt_chat_id state_data;
          w1 = emit DeleteMessage w;
          w2 = snd (safe_edit_message e PhotoReceivedText prompt_chat_id prompt_msg_id None
                      CancelKeyboard w1)
      in if \<not> truthy_int prompt_chat_id \<or> \<not> truthy_msg prompt_msg_id
         then clear (emit (Reply AddStateErrorText) w)
         else if \<not> downloaded photo
         then snd (safe_edit_message e PhotoDownloadFailedText prompt_chat_id prompt_msg_id None
                     CancelKeyboard w2)
         else
           (case (if truthy_str (decoded_barcode photo) then decoded_barcode photo else None) of
              None \<Rightarrow>
                snd (safe_edit_message e BarcodeNotRecognisedText prompt_chat_id prompt_msg_id
                       None CancelKeyboard w2)
            | Some barcode \<Rightarrow>
                (let w3 = snd (safe_edit_message e (BarcodeSearchingText barcode) prompt_chat_id
                                 prompt_msg_id None CancelKeyboard w2)
                 in (case fetched_page photo of
                       None \<Rightarrow>
                         snd (safe_edit_message e (BarcodeFetchFailedText barcode) prompt_chat_id
                                prompt_msg_id None CancelKeyboard w3)
                     | Some html_content \<Rightarrow>
                         (case py_min length (parse_barcode_html html_content) of
                            None \<Rightarrow>
                              snd (safe_edit_message e (BarcodeNoNamesText barcode)
                                     prompt_chat_id prompt_msg_id None CancelKeyboard w3)
                          | Some shortest_name \<Rightarrow>
                              use_shortest_name e user_id prompt_chat_id prompt_msg_id
                                shortest_name w3)))))"

section \<open>Inline search\<close>

text \<open>
  The two tables of \<open>transliterate\<close>, keys and values as strings. A character is looked
  up as the string of that one character, so the keys of \<open>en_ru\<close> with several letters
  are never found by a lookup.
\<close>

definition ru_en :: "(pystr \<times> pystr) list" where
  "ru_en =
     [
      ([1072], [97]), ([1073], [98]), ([1074], [118]), ([1075], [103]),
      ([1076], [100]), ([1077], [101]), ([1105], [121, 111]), ([1078], [122, 104]),
      ([1079], [122]), ([1080], [105]), ([1081], [106]), ([1082], [107]),
      ([1083], [108]), ([1084], [109]), ([1085], [110]), ([1086], [111]),
      ([1087], [112]), ([1088], [114]), ([1089], [115]), ([1090], [116]),
      ([1091], [117]), ([1092], [102]), ([1093], [104]), ([1094], [116, 115]),
      ([1095], [99, 104]), ([1096], [115, 104]), ([1097], [115, 104, 99, 104]), ([1098], []),
      ([1099], [121]), ([1100], []), ([1101], [101]), ([1102], [121, 117]),
      ([1103], [121, 97]), ([1040], [65]), ([1041], [66]), ([1042], [86]),
      ([1043], [71]), ([1044], [68]), ([1045], [69]), ([1025], [89, 111]),
      ([1046], [90, 104]), ([1047], [90]), ([1048], [73]), ([1049], [74]),
      ([1050], [75]), ([1051], [76]), ([1052], [77]), ([1053], [78]),
      ([1054], [79]), ([1055], [80]), ([1056], [82]), ([1057], [83]),
      ([1058], [84]), ([1059], [85]), ([1060], [70]), ([1061], [72]),
      ([1062], [84, 115]), ([1063], [67, 104]), ([1064], [83, 104]), ([1065], [83, 104, 99, 104]),
      ([1066], []), ([1067], [89]), ([1068], []), ([1069], [69]),
      ([1070], [89, 117]), ([1071], [89, 97])]"

definition en_ru :: "(pystr \<times> pystr) list" where
  "en_ru =
     [
      ([97], [1072]), ([98], [1073]), ([118], [1074]), ([103], [1075]),
      ([100], [1076]), ([101], [1077]), ([121, 111], [1105]), ([122, 104], [1078]),
      ([122], [1079]), ([105], [1080]), ([106], [1081]), ([107], [1082]),
      ([108], [1083]), ([109], [1084]), ([110], [1085]), ([111], [1086]),
      ([112], [1087]), ([114], [1088]), ([115], [1089]), ([116], [1090]),
      ([117], [1091]), ([102], [1092]), ([104], [1093]), ([116, 115], [1094]),
      ([99, 104], [1095]), ([115, 104], [1096]), ([115, 104, 99, 104], [1097]), ([121], [1099]),
      ([121, 117], [1102]), ([121, 97], [1103]), ([65], [1040]), ([66], [1041]),
      ([86], [1042]), ([71], [1043]), ([68], [1044]), ([69], [1045]),
      ([89, 111], [1025]), ([90, 104], [1046]), ([90], [1047]), ([73], [1048]),
      ([74], [1049]), ([75], [1050]), ([76], [1051]), ([77], [1052]),
      ([78], [1053]), ([79], [1054]), ([80], [1055]), ([82], [1056]),
      ([83], [1057]), ([84], [1058]), ([85], [1059]), ([70], [1060]),
      ([72], [1061]), ([84, 115], [1062]), ([67, 104], [1063]), ([83, 104], [1064]),
      ([83, 104, 99, 104], [1065]), ([89], [1067]), ([89, 117], [1070]), ([89, 97], [1071])]"

text \<open>
  \<open>s.replace(old, new)\<close> for a non-empty \<open>old\<close>: occurrences are replaced from the left,
  without overlap. The first argument counts the characters of an occurrence still to
  be skipped.
\<close>

fun replace_from :: "nat \<Rightarrow> pystr \<Rightarrow> pystr \<Rightarrow> pystr \<Rightarrow> pystr" where
  "replace_from k old new [] = []"
| "replace_from (Suc k) old new (c # s) = replace_from k old new s"
| "replace_from 0 old new (c # s) =
     (if take (length old) (c # s) = old then new @ replace_from (length old - 1) old new s
      else c # replace_from 0 old new s)"

definition str_replace :: "pystr \<Rightarrow> pystr \<Rightarrow> pystr \<Rightarrow> pystr" where
  "str_replace old new s = replace_from 0 old new s"

text \<open>The sixteen replacements of the Latin branch, in the order of the source.\<close>

definition digraphs :: "(pystr \<times> pystr) list" where
  "digraphs =
     [
      ([115, 104, 99, 104], [1097]), ([83, 104, 99, 104], [1065]), ([121, 111], [1105]), ([89, 111], [1025]),
      ([122, 104], [1078]), ([90, 104], [1046]), ([116, 115], [1094]), ([84, 115], [1062]),
      ([99, 104], [1095]), ([67, 104], [1063]), ([115, 104], [1096]), ([83, 104], [1064]),
      ([121, 117], [1102]), ([89, 117], [1070]), ([121, 97], [1103]), ([89, 97], [1071])]"

definition in_dict :: "nat \<Rightarrow> (pystr \<times> pystr) list \<Rightarrow> bool" where
  "in_dict c dic \<longleftrightarrow> map_of dic [c] \<noteq> None"

definition dict_get :: "(pystr \<times> pystr) list \<Rightarrow> nat \<Rightarrow> pystr" where
  "dict_get dic c = (case map_of dic [c] of Some v \<Rightarrow> v | None \<Rightarrow> [c])"

definition transliterate :: "pystr \<Rightarrow> pystr" where
  "transliterate txt =
     (let is_ru = list_ex (\<lambda>c. in_dict c ru_en) txt;
          is_en = list_ex (\<lambda>c. in_dict c en_ru) txt
      in if is_ru \<and> \<not> is_en then concat (map (dict_get ru_en) txt)
         else if is_en \<and> \<not> is_ru
         then concat (map (dict_get en_ru)
                        (foldl (\<lambda>s (old, new). str_replace old new s) txt digraphs))
         else txt)"

text \<open>
  A \<open>$regex\<close> condition with the escaped string \<open>p\<close> and option \<open>i\<close>: \<open>p\<close> occurs in \<open>s\<close>,
  letters compared without regard to case. \<open>cf\<close> maps a character to its case-folded
  form.
\<close>

definition regex_search_i :: "(nat \<Rightarrow> nat) \<Rightarrow> pystr \<Rightarrow> pystr \<Rightarrow> bool" where
  "regex_search_i cf p s \<longleftrightarrow>
     list_ex (\<lambda>i. map cf (take (length p) (drop i s)) = map cf p) [0 ..< Suc (length s)]"

text \<open>The conditions \<open>inline_search_handler\<close> builds from the lower-cased query.\<close>

definition search_conditions :: "pystr \<Rightarrow> pystr list" where
  "search_conditions query_lower =
     (let translit_query_lower = transliterate query_lower
      in [query_lower] @
         (if translit_query_lower \<noteq> query_lower then [translit_query_lower] else []))"

datatype inline_answer =
    TypeNamePrompt  \<comment> \<open>no results, with the invitation to type a name\<close>
  | Results "med list" "nat option"  \<comment> \<open>the documents found and the next offset\<close>

text \<open>
  \<open>inline_search_handler\<close>, with the query and the offset of the inline query (0 when it
  has none). The database in this model raises nothing, so the \<open>except\<close> branch has no
  case.
\<close>

definition inline_search_handler :: "env \<Rightarrow> int \<Rightarrow> pystr \<Rightarrow> nat \<Rightarrow> collection \<Rightarrow> inline_answer" where
  "inline_search_handler e user_id raw_query offset c =
     (let query = strip raw_query;
          limit = 20
      in if length query < 1 then TypeNamePrompt
         else
           let query_lower = str_lower e query;
               conditions = search_conditions query_lower;
               found_medicines =
                 take limit (drop offset (sort_key m_name_lower
                   (filter (\<lambda>d. m_added_by d = user_id \<and>
                                 list_ex (\<lambda>p. regex_search_i (fold_case e) p (m_name_lower d))
                                   conditions)
                      (docs c))))
           in Results found_medicines
                (if length found_medicines = limit then Some (offset + limit) else None))"

section \<open>The daily reminder\<close>

text \<open>
  The two queries of \<open>daily_reminder\<close> for one user: the dates are compared as the ISO
  strings the documents hold, and the results are sorted by that string.
\<close>

definition expiring_soon_of :: "date \<Rightarrow> date \<Rightarrow> int \<Rightarrow> collection \<Rightarrow> med list" where
  "expiring_soon_of tday upcoming_limit user_id c =
     sort_key m_exp_date
       (filter (\<lambda>d. m_added_by d = user_id \<and> isoformat tday \<le> m_exp_date d \<and>
                     m_exp_date d \<le> isoformat upcoming_limit) (docs c))"

definition expired_of :: "date \<Rightarrow> int \<Rightarrow> collection \<Rightarrow> med list" where
  "expired_of tday user_id c =
     sort_key m_exp_date
       (filter (\<lambda>d. m_added_by d = user_id \<and> m_exp_date d < isoformat tday) (docs c))"

text \<open>
  The digest for a user is the list of its sections, each with its documents in the
  order they are written out. The rendering of a section into lines of text and the
  cutting of the text into messages of 4096 characters are not modelled.
\<close>

datatype reminder_section = ExpiringSoonSection "med list" | ExpiredSection "med list"

definition days_threshold :: nat where
  "days_threshold = 30"

definition daily_reminder :: "env \<Rightarrow> collection \<Rightarrow> exn + (int \<times> reminder_section list) list" where
  "daily_reminder e c =
     (case add_days (today e) days_threshold of
        None \<Rightarrow> Inl OverflowError
      | Some upcoming_limit \<Rightarrow>
          let distinct_user_ids = remdups (map m_added_by (docs c))
          in Inr (concat (map (\<lambda>user_id.
                    let expiring_soon = expiring_soon_of (today e) upcoming_limit user_id c;
                        expired = expired_of (today e) user_id c;
                        reminder_texts =
                          (if expiring_soon \<noteq> [] then [ExpiringSoonSection expiring_soon] else []) @
                          (if expired \<noteq> [] then [ExpiredSection expired] else [])
                    in if reminder_texts \<noteq> [] then [(user_id, reminder_texts)] else [])
                  distinct_user_ids)))"

text \<open>The twelve documents of one user used in the specification's pagination example.\<close>

definition example_med :: "nat \<Rightarrow> med" where
  "example_med i =
     \<lparr>oid = i, m_name = [65, 48 + i div 10, 48 + i mod 10],
      m_name_lower = [97, 48 + i div 10, 48 + i mod 10], m_quantity = [49], m_notes = [45],
      m_exp_date = [50, 48, 51, 48, 45, 48, 49, 45, 48, 49], m_added_by = 7\<rparr>"

definition example_docs :: "med list" where
  "example_docs = map example_med [12, 3, 5, 1, 9, 2, 11, 4, 8, 6, 10, 7]"

section \<open>Notions used to state the properties\<close>

text \<open>
  The new message \<open>safe_edit_message\<close> sends when the edit numbered \<open>n\<close> finds its message
  gone and a chat is known.
\<close>

definition fallback_send :: "env \<Rightarrow> nat \<Rightarrow> int option \<Rightarrow> msg_text \<Rightarrow> markup \<Rightarrow> request list" where
  "fallback_send e n chat_id txt kb =
     (case chat_id of
        Some c \<Rightarrow> if edit_response e n = TelegramBadRequest NotFoundOrInvalid \<and> c \<noteq> 0
                  then [SendMessage c txt kb] else []
      | None \<Rightarrow> [])"

text \<open>
  The message identity a conversation is bound to: the inline message if there is one,
  else the calendar message or the prompt in the prompt's chat.
\<close>

definition bound_identity :: "state_data \<Rightarrow> target option" where
  "bound_identity sd =
     edit_target (sd_prompt_chat_id sd)
       (or_msg (sd_calendar_message_id sd) (map_option IntId (sd_prompt_message_id sd)))
       (sd_inline_message_id sd)"

text \<open>The unique index exists and no two documents share \<open>(added_by, name_lower)\<close>.\<close>

definition index_holds :: "collection \<Rightarrow> bool" where
  "index_holds c \<longleftrightarrow> unique_index c \<and> distinct (map index_key (docs c))"

text \<open>
  The worlds the program can be in: it starts by \<open>create_db_indexes\<close> on a collection
  without duplicates; the handlers that write to the collection take their steps on any
  input; every other handler leaves the collection alone.
\<close>

inductive reachable :: "world \<Rightarrow> bool" where
  start: "distinct (map index_key (docs c)) \<Longrightarrow> coll w = create_db_indexes c \<Longrightarrow> reachable w"
| no_write: "reachable w \<Longrightarrow> coll w' = coll w \<Longrightarrow> reachable w'"
| exp_date_text: "reachable w \<Longrightarrow> reachable (process_medicine_exp_date_text e user_id t w)"
| date_select: "reachable w \<Longrightarrow> reachable (snd (handle_date_select e user_id cb y m dy w))"
| new_value_text: "reachable w \<Longrightarrow> reachable (snd (process_new_value_text e user_id t w))"
| delete_confirm: "reachable w \<Longrightarrow> reachable (delete_medicine_confirm e user_id cb mid w)"

section \<open>Example inputs\<close>

text \<open>
  An environment: 15 June 2025, ASCII digits, lower case for the Latin and Russian
  letters, and a gateway that accepts every request.
\<close>

definition ascii_digit_value :: "nat \<Rightarrow> nat option" where
  "ascii_digit_value c = (if 48 \<le> c \<and> c \<le> 57 then Some (c - 48) else None)"

definition simple_lower :: "nat \<Rightarrow> nat" where
  "simple_lower c =
     (if 65 \<le> c \<and> c \<le> 90 then c + 32
      else if 1040 \<le> c \<and> c \<le> 1071 then c + 32
      else if c = 1025 then 1105 else c)"

definition example_env :: env where
  "example_env =
     \<lparr>today = \<lparr>year = 2025, month = 6, day = 15\<rparr>, str_lower = map simple_lower,
      digit_value = ascii_digit_value, fold_case = simple_lower,
      edit_response = (\<lambda>n. Edited), send_succeeds = (\<lambda>n. True),
      new_message_id = (\<lambda>n. 1000 + int n)\<rparr>"

definition example_coll :: collection where
  "example_coll = \<lparr>docs = example_docs, next_oid = 13, unique_index = True\<rparr>"

text \<open>
  User 7 in the add flow, waiting for the expiry date of "Zinc"; the same with notes
  missing; and with the name of a document already stored.
\<close>

definition example_add_data :: state_data where
  "example_add_data =
     empty_data\<lparr>sd_prompt_chat_id := Some 7, sd_prompt_message_id := Some 40,
                sd_calendar_message_id := Some (IntId 40), sd_calendar_year := Some 2025,
                sd_calendar_month := Some 6, sd_name := Some [90, 105, 110, 99],
                sd_name_lower := Some [122, 105, 110, 99], sd_quantity := Some [49, 48],
                sd_notes := Some [45]\<rparr>"

definition example_add_world :: world where
  "example_add_world =
     \<lparr>cur_state = Some waiting_for_exp_date, cur_data = example_add_data, coll = example_coll,
      sent = [], logged = []\<rparr>"

text \<open>
  User 7 editing the quantity of document 3 from an inline message, waiting for the new
  value.
\<close>

definition example_edit_data :: state_data where
  "example_edit_data =
     empty_data\<lparr>sd_med_id := Some (OidStr 3), sd_med_name := Some [65, 48, 51],
                sd_field_to_edit := Some ''quantity'', sd_user_id := Some 7,
                sd_inline_message_id := Some [116, 111, 107],
                sd_calendar_message_id := Some (StrId [116, 111, 107])\<rparr>"

definition example_edit_world :: world where
  "example_edit_world =
     \<lparr>cur_state = Some waiting_for_new_value, cur_data = example_edit_data, coll = example_coll,
      sent = [], logged = []\<rparr>"

text \<open>User 7 about to commit a second "A03".\<close>

definition example_dup_world :: world where
  "example_dup_world =
     example_add_world
       \<lparr>cur_data := example_add_data
          \<lparr>sd_name := Some [65, 48, 51], sd_name_lower := Some [97, 48, 51],
           sd_exp_date := Some [50, 48, 50, 53, 45, 48, 54, 45, 49, 53]\<rparr>\<rparr>"



section \<open>What rendering leaves unchanged\<close>

lemma emit_fields [simp]:
  "coll (emit r w) = coll w" "cur_state (emit r w) = cur_state w" "cur_data (emit r w) = cur_data w"
  "logged (emit r w) = logged w" "sent (emit r w) = sent w @ [r]"
  by (simp_all add: emit_def)

lemma log_line_fields [simp]:
  "coll (log_line l w) = coll w" "cur_state (log_line l w) = cur_state w"
  "cur_data (log_line l w) = cur_data w" "sent (log_line l w) = sent w"
  "logged (log_line l w) = logged w @ [l]"
  by (simp_all add: log_line_def)

lemma clear_fields [simp]:
  "coll (clear w) = coll w" "cur_state (clear w) = None" "cur_data (clear w) = empty_data"
  "sent (clear w) = sent w" "logged (clear w) = logged w"
  by (simp_all add: clear_def)

lemma safe_edit_message_fields [simp]:
  "coll (snd (safe_edit_message e t c m i k w)) = coll w"
  "cur_state (snd (safe_edit_message e t c m i k w)) = cur_state w"
  "cur_data (snd (safe_edit_message e t c m i k w)) = cur_data w"
  "logged (snd (safe_edit_message e t c m i k w)) = logged w"
  by (simp_all add: safe_edit_message_def Let_def
      split: option.splits edit_response.splits bad_request.splits)

lemma show_main_menu_message_fields [simp]:
  "coll (show_main_menu_message e c m i w) = coll w"
  "cur_state (show_main_menu_message e c m i w) = cur_state w"
  "cur_data (show_main_menu_message e c m i w) = cur_data w"
  "logged (show_main_menu_message e c m i w) = logged w"
  by (simp_all add: show_main_menu_message_def)

lemma show_user_medicine_list_fields [simp]:
  "coll (show_user_medicine_list e u c m p w) = coll w"
  "cur_state (show_user_medicine_list e u c m p w) = cur_state w"
  "cur_data (show_user_medicine_list e u c m p w) = cur_data w"
  "logged (show_user_medicine_list e u c m p w) = logged w"
  by (simp_all add: show_user_medicine_list_def Let_def)

lemma view_medicine_details_fields [simp]:
  "coll (view_medicine_details e mid u c m i w) = coll w"
  "cur_state (view_medicine_details e mid u c m i w) = cur_state w"
  "cur_data (view_medicine_details e mid u c m i w) = cur_data w"
  "logged (view_medicine_details e mid u c m i w) = logged w"
  by (simp_all add: view_medicine_details_def Let_def split: option.splits)

lemma all_collected_iff:
  "all_collected sd \<longleftrightarrow>
     (\<exists>n nl q nt ex. sd_name sd = Some n \<and> n \<noteq> [] \<and> sd_name_lower sd = Some nl \<and> nl \<noteq> [] \<and>
        sd_quantity sd = Some q \<and> q \<noteq> [] \<and> sd_notes sd = Some nt \<and> nt \<noteq> [] \<and>
        sd_exp_date sd = Some ex \<and> ex \<noteq> [])"
  by (auto simp: all_collected_def truthy_str_def split: option.splits)

lemma save_new_medicine_incomplete:
  assumes "\<not> all_collected (cur_data w)"
  shows "coll (save_new_medicine e u c m w) = coll w"
    and "cur_state (save_new_medicine e u c m w) = None"
    and "cur_data (save_new_medicine e u c m w) = empty_data"
    and "logged (save_new_medicine e u c m w) = logged w @ [IncompleteDataLog]"
  using assms by (simp_all add: save_new_medicine_def Let_def)

lemma save_new_medicine_state:
  "cur_state (save_new_medicine e u c m w) = None"
  "cur_data (save_new_medicine e u c m w) = empty_data"
  by (simp_all add: save_new_medicine_def Let_def split: option.splits sum.splits)

lemma save_new_medicine_docs:
  "docs (coll (save_new_medicine e u c m w)) = docs (coll w) \<or>
   (\<exists>d. docs (coll (save_new_medicine e u c m w)) = docs (coll w) @ [d] \<and>
      sd_name (cur_data w) = Some (m_name d) \<and> m_name d \<noteq> [] \<and>
      sd_name_lower (cur_data w) = Some (m_name_lower d) \<and> m_name_lower d \<noteq> [] \<and>
      sd_quantity (cur_data w) = Some (m_quantity d) \<and> m_quantity d \<noteq> [] \<and>
      sd_notes (cur_data w) = Some (m_notes d) \<and> m_notes d \<noteq> [] \<and>
      sd_exp_date (cur_data w) = Some (m_exp_date d) \<and> m_exp_date d \<noteq> [] \<and>
      m_added_by d = u)"
  by (auto simp: save_new_medicine_def Let_def all_collected_iff med_doc_of_def insert_one_def
      split: option.splits sum.splits if_splits)

lemma sent_safe_edit_message:
  "sent (snd (safe_edit_message e t c m i k w)) =
     sent w @ (case edit_target c m i of None \<Rightarrow> []
               | Some tgt \<Rightarrow> EditMessageText tgt t k # fallback_send e (length (sent w)) c t k)"
  by (simp add: safe_edit_message_def Let_def fallback_send_def
      split: option.splits edit_response.splits bad_request.splits)

lemma edit_target_inline:
  "truthy_str i \<Longrightarrow> edit_target c m i = edit_target None None i"
  by (simp add: edit_target_def)

lemma edit_target_ordinary:
  "\<not> truthy_str i \<Longrightarrow> edit_target c m i = edit_target c m None"
  by (simp add: edit_target_def truthy_str_def)

lemma edit_target_None_iff:
  "edit_target c m i = None \<longleftrightarrow> \<not> truthy_str i \<and> \<not> (truthy_int c \<and> truthy_msg m)"
  by (auto simp: edit_target_def truthy_str_def truthy_int_def truthy_msg_def split: option.splits)

lemma cancel_handler_frame:
  assumes "cur_state w \<noteq> None"
  shows "cur_state (cancel_handler e w) = None" "cur_data (cancel_handler e w) = empty_data"
    "coll (cancel_handler e w) = coll w"
  using assms by (auto simp: cancel_handler_def Let_def start_handler_def)

lemma sent_show_main_menu_message:
  "sent (show_main_menu_message e c m i w) =
     sent w @ (case edit_target c m i of None \<Rightarrow> []
               | Some tgt \<Rightarrow> EditMessageText tgt MainMenuText MainMenuKeyboard #
                   fallback_send e (length (sent w)) c MainMenuText MainMenuKeyboard)"
  by (simp add: show_main_menu_message_def sent_safe_edit_message)

lemma fallback_send_None [simp]: "fallback_send e n None t k = []"
  by (simp add: fallback_send_def)

lemma cancel_handler_sent:
  assumes st: "cur_state w \<noteq> None" and b: "bound_identity (cur_data w) = Some tgt"
  shows "sent (cancel_handler e w) =
     sent w @ [DeleteMessage, EditMessageText tgt MainMenuText MainMenuKeyboard] @
       (if truthy_str (sd_inline_message_id (cur_data w)) then []
        else fallback_send e (Suc (length (sent w))) (sd_prompt_chat_id (cur_data w)) MainMenuText MainMenuKeyboard)"
proof (cases "truthy_str (sd_inline_message_id (cur_data w))")
  case True
  from b True have t: "edit_target None None (sd_inline_message_id (cur_data w)) = Some tgt"
    unfolding bound_identity_def using edit_target_inline by metis
  from st obtain s where s: "cur_state w = Some s" by auto
  show ?thesis
    by (simp add: cancel_handler_def s Let_def True sent_show_main_menu_message t)
next
  case False
  from b False have t: "edit_target (sd_prompt_chat_id (cur_data w))
       (or_msg (sd_calendar_message_id (cur_data w)) (map_option IntId (sd_prompt_message_id (cur_data w)))) None = Some tgt"
    unfolding bound_identity_def using edit_target_ordinary by metis
  then have tr: "truthy_int (sd_prompt_chat_id (cur_data w)) \<and>
      truthy_msg (or_msg (sd_calendar_message_id (cur_data w)) (map_option IntId (sd_prompt_message_id (cur_data w))))"
    using edit_target_None_iff[of "sd_prompt_chat_id (cur_data w)" _ None]
    by (metis option.distinct(1) truthy_str_def option.simps(4))
  from st obtain s where s: "cur_state w = Some s" by auto
  show ?thesis
    by (simp add: cancel_handler_def s Let_def False sent_show_main_menu_message t tr)
qed

lemma cancel_action_callback_sent:
  assumes st: "cur_state w \<noteq> None" and b: "bound_identity (cur_data w) = Some tgt"
  shows "sent (cancel_action_callback e cb w) =
     sent w @ [EditMessageText tgt MainMenuText MainMenuKeyboard] @
       (if truthy_str (sd_inline_message_id (cur_data w)) then []
        else fallback_send e (length (sent w)) (sd_prompt_chat_id (cur_data w)) MainMenuText MainMenuKeyboard)
       @ [AnswerCallback (Some CancelledText) False]"
proof (cases "truthy_str (sd_inline_message_id (cur_data w))")
  case True
  from b True have t: "edit_target None None (sd_inline_message_id (cur_data w)) = Some tgt"
    unfolding bound_identity_def using edit_target_inline by metis
  from st obtain s where s: "cur_state w = Some s" by auto
  show ?thesis
    by (simp add: cancel_action_callback_def s Let_def True sent_show_main_menu_message t)
next
  case False
  from b False have t: "edit_target (sd_prompt_chat_id (cur_data w))
       (or_msg (sd_calendar_message_id (cur_data w)) (map_option IntId (sd_prompt_message_id (cur_data w)))) None = Some tgt"
    unfolding bound_identity_def using edit_target_ordinary by metis
  then have tr: "truthy_int (sd_prompt_chat_id (cur_data w)) \<and>
      truthy_msg (or_msg (sd_calendar_message_id (cur_data w)) (map_option IntId (sd_prompt_message_id (cur_data w))))"
    using edit_target_None_iff[of "sd_prompt_chat_id (cur_data w)" _ None]
    by (metis option.distinct(1) truthy_str_def option.simps(4))
  from st obtain s where s: "cur_state w = Some s" by auto
  show ?thesis
    by (simp add: cancel_action_callback_def s Let_def False sent_show_main_menu_message t tr)
qed

section \<open>The unique index is kept\<close>

lemma index_holds_create_db_indexes:
  "distinct (map index_key (docs c)) \<Longrightarrow> index_holds (create_db_indexes c)"
  by (simp add: create_db_indexes_def create_unique_index_def index_holds_def)

lemma index_holds_insert_one:
  "index_holds c \<Longrightarrow> insert_one doc c = Inr c' \<Longrightarrow> index_holds c'"
  by (auto simp: insert_one_def index_holds_def index_key_def split: if_splits)

lemma insert_one_duplicate:
  "index_holds c \<Longrightarrow> index_key doc \<in> index_key ` set (docs c) \<Longrightarrow> insert_one doc c = Inl DuplicateKeyError"
  by (simp add: insert_one_def index_holds_def)

lemma keys_replace_first:
  "k ` set (replace_first q new ds) \<subseteq> insert (k new) (k ` set ds)"
  by (induction ds) auto

lemma find_Some_mem: "List.find q ds = Some d \<Longrightarrow> d \<in> set ds"
  by (induction ds) (auto split: if_splits)

lemma distinct_replace_first:
  "List.find q ds = Some d \<Longrightarrow> distinct (map k ds) \<Longrightarrow> k new = k d \<or> k new \<notin> k ` set ds \<Longrightarrow>
   distinct (map k (replace_first q new ds))"
proof (induction ds)
  case Nil
  then show ?case by simp
next
  case (Cons a ds)
  show ?case
  proof (cases "q a")
    case True
    then have "a = d" using Cons.prems(1) by simp
    then show ?thesis using True Cons.prems(2,3) by auto
  next
    case False
    with Cons.prems(1) have f: "List.find q ds = Some d" by simp
    then have dmem: "d \<in> set ds" by (rule find_Some_mem)
    have a_notin: "k a \<notin> k ` set ds" using Cons.prems(2) by simp
    have ne: "k new \<noteq> k a"
    proof
      assume eq: "k new = k a"
      from Cons.prems(3) show False
      proof
        assume "k new = k d"
        with eq dmem a_notin show False by (metis imageI)
      next
        assume "k new \<notin> k ` set (a # ds)"
        with eq show False by simp
      qed
    qed
    have "k a \<notin> k ` set (replace_first q new ds)"
    proof
      assume "k a \<in> k ` set (replace_first q new ds)"
      with keys_replace_first[of k q new ds] have "k a \<in> insert (k new) (k ` set ds)" by (rule subsetD)
      with ne a_notin show False by simp
    qed
    moreover have "distinct (map k (replace_first q new ds))"
    proof (rule Cons.IH[OF f])
      show "distinct (map k ds)" using Cons.prems(2) by simp
      show "k new = k d \<or> k new \<notin> k ` set ds" using Cons.prems(3) by auto
    qed
    ultimately show ?thesis using False by simp
  qed
qed

lemma set_remove_first: "set (remove_first q ds) \<subseteq> set ds"
  by (induction ds) auto

lemma distinct_remove_first:
  "distinct (map k ds) \<Longrightarrow> distinct (map k (remove_first q ds))"
proof (induction ds)
  case Nil
  then show ?case by simp
next
  case (Cons a ds)
  then show ?case using set_remove_first[of q ds] by (auto simp: image_iff)
qed

lemma index_holds_update_one:
  assumes "index_holds c" "update_one q u c = Inr (r, c')"
  shows "index_holds c'"
proof (cases "List.find q (docs c)")
  case None
  with assms show ?thesis by (simp add: update_one_def)
next
  case (Some d)
  show ?thesis
  proof (cases "apply_set u d = d")
    case True
    with assms Some show ?thesis by (simp add: update_one_def)
  next
    case False
    with assms Some have
      k: "index_key (apply_set u d) = index_key d \<or> index_key (apply_set u d) \<notin> index_key ` set (docs c)"
      and c': "c' = c\<lparr>docs := replace_first q (apply_set u d) (docs c)\<rparr>"
      by (auto simp: update_one_def index_holds_def split: if_splits)
    from distinct_replace_first[OF Some _ k] assms(1) show ?thesis
      by (simp add: c' index_holds_def)
  qed
qed

lemma index_holds_delete_one:
  "index_holds c \<Longrightarrow> index_holds (snd (delete_one q c))"
  by (auto simp: delete_one_def index_holds_def distinct_remove_first split: option.splits)

lemma index_holds_save_new_medicine:
  "index_holds (coll w) \<Longrightarrow> index_holds (coll (save_new_medicine e u c m w))"
  by (auto simp: save_new_medicine_def Let_def dest: index_holds_insert_one split: option.splits sum.splits)

lemma coll_save_edited_outcome [simp]:
  "coll (save_edited_outcome e r u mid c m i w) = coll w"
  by (simp add: save_edited_outcome_def Let_def)

lemma index_holds_save_edited_medicine:
  "index_holds (coll w) \<Longrightarrow> index_holds (coll (snd (save_edited_medicine e u mid f v upd c m i w)))"
  by (auto simp: save_edited_medicine_def Let_def dest: index_holds_update_one split: option.splits sum.splits)

lemma index_holds_process_medicine_exp_date_text:
  "index_holds (coll w) \<Longrightarrow> index_holds (coll (process_medicine_exp_date_text e u t w))"
  by (auto simp: process_medicine_exp_date_text_def Let_def intro!: index_holds_save_new_medicine split: option.splits)

lemma index_holds_process_new_value_text:
  assumes "index_holds (coll w)"
  shows "index_holds (coll (snd (process_new_value_text e u t w)))"
proof -
  have *: "index_holds (coll (snd (save_edited_medicine e u mid f v upd c m i (emit DeleteMessage w))))"
    for mid f v upd c m i
    using assms index_holds_save_edited_medicine[of "emit DeleteMessage w"] by simp
  show ?thesis
    using assms *
    by (simp add: process_new_value_text_def Let_def split: option.splits sum.splits prod.splits)
qed

lemma index_holds_handle_date_select:
  assumes "index_holds (coll w)"
  shows "index_holds (coll (snd (handle_date_select e u cb y m dy w)))"
proof -
  have a: "index_holds (coll (save_new_medicine e u c mm w'))" if "coll w' = coll w" for c mm w'
    using assms that index_holds_save_new_medicine[of w'] by simp
  have b: "index_holds (coll (snd (save_edited_medicine e u mid f v upd c mm i w')))"
    if "coll w' = coll w" for mid f v upd c mm i w'
    using assms that index_holds_save_edited_medicine[of w'] by simp
  show ?thesis
    using assms
    by (simp add: handle_date_select_def Let_def a b split: option.splits msg_id.splits prod.splits)
qed

lemma index_holds_delete_one_pair:
  "index_holds c \<Longrightarrow> delete_one q c = (n, c') \<Longrightarrow> index_holds c'"
  using index_holds_delete_one[of c q] by simp

lemma index_holds_delete_medicine_confirm:
  assumes "index_holds (coll w)"
  shows "index_holds (coll (delete_medicine_confirm e u cb mid w))"
proof -
  have "index_holds c'" if "delete_one q (coll w) = (n, c')" for q n c'
    using assms that by (rule index_holds_delete_one_pair)
  then show ?thesis
    using assms
    by (simp add: delete_medicine_confirm_def Let_def split: option.splits prod.splits)
qed

lemma cancel_action_callback_frame:
  assumes "cur_state w \<noteq> None"
  shows "cur_state (cancel_action_callback e cb w) = None"
    "cur_data (cancel_action_callback e cb w) = empty_data"
    "coll (cancel_action_callback e cb w) = coll w"
  using assms by (auto simp: cancel_action_callback_def Let_def)

section \<open>Saving an edited value\<close>

lemma sent_view_medicine_details_found:
  assumes "edit_target c m i = Some tgt"
    and "find_one (\<lambda>d. oid d = ob \<and> m_added_by d = u) (coll w) = Some r"
  shows "sent (view_medicine_details e (OidStr ob) u c m i w) =
     sent w @ [EditMessageText tgt (DetailsText r) (DetailsKeyboard (OidStr ob) (truthy_str i))] @
       fallback_send e (length (sent w)) c (DetailsText r) (DetailsKeyboard (OidStr ob) (truthy_str i))"
proof -
  from assms(1) have "\<not> (\<not> (truthy_int c \<and> truthy_msg m) \<and> \<not> truthy_str i)"
    using edit_target_None_iff[of c m i] by auto
  then show ?thesis
    using assms
    by (simp add: view_medicine_details_def Let_def ObjectId_def sent_safe_edit_message)
qed

lemma replace_first_same: "List.find q ds = Some d \<Longrightarrow> replace_first q d ds = ds"
  by (induction ds) (auto split: if_splits)

lemma find_replace_first:
  "List.find q ds = Some d \<Longrightarrow> q new \<Longrightarrow> List.find q (replace_first q new ds) = Some new"
  by (induction ds) (auto split: if_splits)

lemma find_Some_sat: "List.find q ds = Some d \<Longrightarrow> q d"
  by (induction ds) (auto split: if_splits)

lemma apply_set_keeps [simp]: "oid (apply_set u d) = oid d" "m_added_by (apply_set u d) = m_added_by d"
  by (simp_all add: apply_set_def)

lemma update_one_found:
  assumes "List.find q (docs c) = Some r"
    and "\<not> (unique_index c \<and> index_key (apply_set u r) \<noteq> index_key r \<and>
            index_key (apply_set u r) \<in> set (map index_key (docs c)))"
  shows "update_one q u c =
     Inr (\<lparr>matched_count = 1, modified_count = (if apply_set u r = r then 0 else 1)\<rparr>,
          c\<lparr>docs := replace_first q (apply_set u r) (docs c)\<rparr>)"
  using assms by (auto simp: update_one_def replace_first_same)

lemma save_edited_medicine_found:
  assumes f: "find_one (\<lambda>d. oid d = ob \<and> m_added_by d = user_id) (coll w) = Some r"
    and mg: "merge_new_value fld v u = Some u'" and ne: "u' \<noteq> no_update"
    and nd: "\<not> (unique_index (coll w) \<and> index_key (apply_set u' r) \<noteq> index_key r \<and>
            index_key (apply_set u' r) \<in> set (map index_key (docs (coll w))))"
  shows "save_edited_medicine e user_id (OidStr ob) fld v u c m i w =
     (None,
      view_medicine_details e (OidStr ob) user_id c m i
        (log_line (if apply_set u' r = r then MatchedNotModifiedLog else UpdatedLog)
           (clear (w\<lparr>coll := (coll w)\<lparr>docs :=
               replace_first (\<lambda>d. oid d = ob \<and> m_added_by d = user_id) (apply_set u' r)
                 (docs (coll w))\<rparr>\<rparr>))))"
proof -
  from f have f': "List.find (\<lambda>d. oid d = ob \<and> m_added_by d = user_id) (docs (coll w)) = Some r"
    by (simp add: find_one_def)
  show ?thesis
    using f mg ne
    by (simp add: save_edited_medicine_def ObjectId_def Let_def update_one_found[OF f' nd]
        save_edited_outcome_def)
qed

lemma validated_merge:
  "validate_new_value e user_id mid fld s c = Inr (None, u, v) \<Longrightarrow> merge_new_value fld v u = Some u"
  by (auto simp: validate_new_value_def merge_new_value_def upd_has_key_def no_update_def Let_def
      split: if_splits option.splits)


lemma same_oid_same_doc:
  "distinct (map oid ds) \<Longrightarrow> d \<in> set ds \<Longrightarrow> r \<in> set ds \<Longrightarrow> oid d = oid r \<Longrightarrow> d = r"
  by (metis distinct_map inj_on_def)

lemma find_None_all: "List.find q ds = None \<Longrightarrow> d \<in> set ds \<Longrightarrow> \<not> q d"
  by (simp add: find_None_iff)

lemma validated_key_free:
  assumes v: "validate_new_value e user_id (OidStr ob) fld s c = Inr (None, u, v)"
    and f: "find_one (\<lambda>d. oid d = ob \<and> m_added_by d = user_id) c = Some r"
    and o: "distinct (map oid (docs c))"
  shows "\<not> (unique_index c \<and> index_key (apply_set u r) \<noteq> index_key r \<and>
            index_key (apply_set u r) \<in> set (map index_key (docs c)))"
proof (cases "fld = ''name''")
  case False
  with v have "u_name_lower u = None"
    by (auto simp: validate_new_value_def no_update_def Let_def split: if_splits option.splits)
  then have "index_key (apply_set u r) = index_key r"
    by (simp add: index_key_def apply_set_def)
  then show ?thesis by simp
next
  case True
  from f have rin: "r \<in> set (docs c)" and rq: "oid r = ob" "m_added_by r = user_id"
    using find_Some_mem[of _ "docs c" r] find_Some_sat[of _ "docs c" r]
    by (auto simp: find_one_def)
  from v True have nl: "u_name_lower u = Some (str_lower e s)"
    and none: "find_one (\<lambda>d. m_name_lower d = str_lower e s \<and> m_added_by d = user_id \<and> oid d \<noteq> ob) c = None"
    by (auto simp: validate_new_value_def no_update_def Let_def ObjectId_def
        split: if_splits option.splits)
  have k: "index_key (apply_set u r) = (user_id, str_lower e s)"
    using nl rq by (simp add: index_key_def apply_set_def)
  show ?thesis
  proof
    assume a: "unique_index c \<and> index_key (apply_set u r) \<noteq> index_key r \<and>
            index_key (apply_set u r) \<in> set (map index_key (docs c))"
    then obtain d where d: "d \<in> set (docs c)" "index_key d = (user_id, str_lower e s)"
      using k by auto
    then have "\<not> (m_name_lower d = str_lower e s \<and> m_added_by d = user_id \<and> oid d \<noteq> ob)"
      using none find_None_all[of "\<lambda>d. m_name_lower d = str_lower e s \<and> m_added_by d = user_id \<and> oid d \<noteq> ob" "docs c" d]
      unfolding find_one_def by blast
    with d(2) have "oid d = ob" by (simp add: index_key_def)
    with o d(1) rin rq(1) have "d = r" by (intro same_oid_same_doc[of "docs c"]) simp_all
    with d(2) k a show False by simp
  qed
qed

lemma process_new_value_text_saved:
  assumes mid: "sd_med_id (cur_data w) = Some (OidStr ob)"
    and mn: "truthy_str (sd_med_name (cur_data w))"
    and fl: "sd_field_to_edit (cur_data w) = Some fld" "fld \<noteq> []"
    and b: "bound_identity (cur_data w) = Some tgt"
    and v: "validate_new_value e user_id (OidStr ob) fld (strip t) (coll w) = Inr (None, u, v)"
    and ne: "u \<noteq> no_update"
    and f: "find_one (\<lambda>d. oid d = ob \<and> m_added_by d = user_id) (coll w) = Some r"
    and o: "distinct (map oid (docs (coll w)))"
  shows "process_new_value_text e user_id t w =
     (None,
      view_medicine_details e (OidStr ob) user_id (sd_prompt_chat_id (cur_data w))
        (or_msg (sd_calendar_message_id (cur_data w)) (map_option IntId (sd_prompt_message_id (cur_data w))))
        (sd_inline_message_id (cur_data w))
        (log_line (if apply_set u r = r then MatchedNotModifiedLog else UpdatedLog)
           (clear ((emit DeleteMessage w)\<lparr>coll := (coll w)\<lparr>docs :=
               replace_first (\<lambda>d. oid d = ob \<and> m_added_by d = user_id) (apply_set u r)
                 (docs (coll w))\<rparr>\<rparr>))))"
proof -
  from b have ok: "(truthy_int (sd_prompt_chat_id (cur_data w)) \<and>
        truthy_msg (or_msg (sd_calendar_message_id (cur_data w)) (map_option IntId (sd_prompt_message_id (cur_data w)))))
       \<or> truthy_str (sd_inline_message_id (cur_data w))"
    unfolding bound_identity_def using edit_target_None_iff by (metis option.distinct(1))
  have s: "save_edited_medicine e user_id (OidStr ob) fld v u c m i (emit DeleteMessage w) =
     (None,
      view_medicine_details e (OidStr ob) user_id c m i
        (log_line (if apply_set u r = r then MatchedNotModifiedLog else UpdatedLog)
           (clear ((emit DeleteMessage w)\<lparr>coll := (coll w)\<lparr>docs :=
               replace_first (\<lambda>d. oid d = ob \<and> m_added_by d = user_id) (apply_set u r)
                 (docs (coll w))\<rparr>\<rparr>))))" for c m i
    using save_edited_medicine_found[of ob user_id "emit DeleteMessage w" r fld v u u e c m i]
      f validated_merge[OF v] ne validated_key_free[OF v f o]
    by simp
  show ?thesis
    using mid mn fl ok
    by (simp add: process_new_value_text_def Let_def truthy_item_def truthy_str_def v s)
qed


lemma saved_edit_result:
  assumes mid: "sd_med_id (cur_data w) = Some (OidStr ob)"
    and mn: "truthy_str (sd_med_name (cur_data w))"
    and fl: "sd_field_to_edit (cur_data w) = Some fld" "fld \<noteq> []"
    and b: "bound_identity (cur_data w) = Some tgt"
    and v: "validate_new_value e user_id (OidStr ob) fld (strip t) (coll w) = Inr (None, u, v)"
    and ne: "u \<noteq> no_update"
    and f: "find_one (\<lambda>d. oid d = ob \<and> m_added_by d = user_id) (coll w) = Some r"
    and o: "distinct (map oid (docs (coll w)))"
  shows "fst (process_new_value_text e user_id t w) = None"
    and "cur_state (snd (process_new_value_text e user_id t w)) = None"
    and "cur_data (snd (process_new_value_text e user_id t w)) = empty_data"
    and "coll (snd (process_new_value_text e user_id t w)) =
           (coll w)\<lparr>docs := replace_first (\<lambda>d. oid d = ob \<and> m_added_by d = user_id) (apply_set u r)
                              (docs (coll w))\<rparr>"
    and "logged (snd (process_new_value_text e user_id t w)) =
           logged w @ [if apply_set u r = r then MatchedNotModifiedLog else UpdatedLog]"
    and "sent (snd (process_new_value_text e user_id t w)) =
           sent w @ [DeleteMessage,
                     EditMessageText tgt (DetailsText (apply_set u r))
                       (DetailsKeyboard (OidStr ob) (truthy_str (sd_inline_message_id (cur_data w))))] @
             fallback_send e (Suc (length (sent w))) (sd_prompt_chat_id (cur_data w))
               (DetailsText (apply_set u r))
               (DetailsKeyboard (OidStr ob) (truthy_str (sd_inline_message_id (cur_data w))))"
proof -
  note P = process_new_value_text_saved[OF mid mn fl b v ne f o]
  show "fst (process_new_value_text e user_id t w) = None"
    and "cur_state (snd (process_new_value_text e user_id t w)) = None"
    and "cur_data (snd (process_new_value_text e user_id t w)) = empty_data"
    and "coll (snd (process_new_value_text e user_id t w)) =
           (coll w)\<lparr>docs := replace_first (\<lambda>d. oid d = ob \<and> m_added_by d = user_id) (apply_set u r)
                              (docs (coll w))\<rparr>"
    and "logged (snd (process_new_value_text e user_id t w)) =
           logged w @ [if apply_set u r = r then MatchedNotModifiedLog else UpdatedLog]"
    unfolding P by simp_all
  from f have f': "List.find (\<lambda>d. oid d = ob \<and> m_added_by d = user_id) (docs (coll w)) = Some r"
    by (simp add: find_one_def)
  from find_Some_sat[OF f'] have q: "oid (apply_set u r) = ob \<and> m_added_by (apply_set u r) = user_id"
    by simp
  have f2: "find_one (\<lambda>d. oid d = ob \<and> m_added_by d = user_id)
              (coll (log_line (if apply_set u r = r then MatchedNotModifiedLog else UpdatedLog)
           (clear ((emit DeleteMessage w)\<lparr>coll := (coll w)\<lparr>docs :=
               replace_first (\<lambda>d. oid d = ob \<and> m_added_by d = user_id) (apply_set u r)
                 (docs (coll w))\<rparr>\<rparr>)))) = Some (apply_set u r)"
    using find_replace_first[OF f', of "apply_set u r"] q by (simp add: find_one_def)
  show "sent (snd (process_new_value_text e user_id t w)) =
           sent w @ [DeleteMessage,
                     EditMessageText tgt (DetailsText (apply_set u r))
                       (DetailsKeyboard (OidStr ob) (truthy_str (sd_inline_message_id (cur_data w))))] @
             fallback_send e (Suc (length (sent w))) (sd_prompt_chat_id (cur_data w))
               (DetailsText (apply_set u r))
               (DetailsKeyboard (OidStr ob) (truthy_str (sd_inline_message_id (cur_data w))))"
    unfolding P
    using sent_view_medicine_details_found[OF b[unfolded bound_identity_def] f2, of e]
    by simp
qed




section \<open>Pagination of the medicine list\<close>












section \<open>The add flow commits complete records only\<close>

text \<open>
  C10. \<open>_save_new_medicine\<close> inserts only when name, name_lower, quantity, notes and
  exp_date are all present and non-empty. When one of them is missing or empty it clears
  the conversation and leaves the collection as it was. Whatever the input, the
  collection afterwards is the one before, or the one before with one more document,
  whose five fields are the collected values, none of them empty.
\<close>

theorem add_commit_needs_all_values:
  "(v \<in> set [sd_name (cur_data w), sd_name_lower (cur_data w), sd_quantity (cur_data w),
               sd_notes (cur_data w), sd_exp_date (cur_data w)] \<and> (v = None \<or> v = Some []) \<longrightarrow>
      coll (save_new_medicine e user_id chat_id message_id w) = coll w \<and>
      cur_state (save_new_medicine e user_id chat_id message_id w) = None \<and>
      cur_data (save_new_medicine e user_id chat_id message_id w) = empty_data \<and>
      logged (save_new_medicine e user_id chat_id message_id w) = logged w @ [IncompleteDataLog])
   \<and> (docs (coll (save_new_medicine e user_id chat_id message_id w)) = docs (coll w) \<or>
      (\<exists>d. docs (coll (save_new_medicine e user_id chat_id message_id w)) = docs (coll w) @ [d] \<and>
         sd_name (cur_data w) = Some (m_name d) \<and> m_name d \<noteq> [] \<and>
         sd_name_lower (cur_data w) = Some (m_name_lower d) \<and> m_name_lower d \<noteq> [] \<and>
         sd_quantity (cur_data w) = Some (m_quantity d) \<and> m_quantity d \<noteq> [] \<and>
         sd_notes (cur_data w) = Some (m_notes d) \<and> m_notes d \<noteq> [] \<and>
         sd_exp_date (cur_data w) = Some (m_exp_date d) \<and> m_exp_date d \<noteq> [] \<and>
         m_added_by d = user_id))"
proof -
  have "\<not> all_collected (cur_data w)"
    if "v \<in> set [sd_name (cur_data w), sd_name_lower (cur_data w), sd_quantity (cur_data w),
               sd_notes (cur_data w), sd_exp_date (cur_data w)]" "v = None \<or> v = Some []"
    using that by (auto simp: all_collected_iff)
  then show ?thesis
    using save_new_medicine_incomplete[of w e user_id chat_id message_id]
      save_new_medicine_docs[of e user_id chat_id message_id w]
    by blast
qed

theorem add_commit_needs_all_values_witness:
  "coll (save_new_medicine example_env 7 (Some 7) (Some (IntId 40)) example_add_world) = example_coll
   \<and> cur_state (save_new_medicine example_env 7 (Some 7) (Some (IntId 40)) example_add_world) = None"
  using add_commit_needs_all_values[of None example_add_world example_env 7 "Some 7" "Some (IntId 40)"]
  by (simp add: example_add_world_def example_add_data_def empty_data_def)

section \<open>Rejected and accepted expiry dates\<close>

lemma date_less_irrefl: "\<not> date_less d d"
  by (simp add: date_less_def)

lemma exp_date_text_bad_format:
  "strptime_Ymd (digit_value e) (strip t) = None \<Longrightarrow>
   process_medicine_exp_date_text e user_id t w = emit (Reply DateBadFormatText) w"
  by (simp add: process_medicine_exp_date_text_def Let_def)

lemma exp_date_text_past:
  "strptime_Ymd (digit_value e) (strip t) = Some d \<Longrightarrow> date_less d (today e) \<Longrightarrow>
   process_medicine_exp_date_text e user_id t w = emit (Reply DateInPastText) w"
  by (simp add: process_medicine_exp_date_text_def Let_def)

lemma exp_date_text_accepted:
  "strptime_Ymd (digit_value e) (strip t) = Some d \<Longrightarrow> \<not> date_less d (today e) \<Longrightarrow>
   process_medicine_exp_date_text e user_id t w =
     save_new_medicine e user_id (sd_prompt_chat_id (cur_data w)) (sd_calendar_message_id (cur_data w))
       (emit DeleteMessage (w\<lparr>cur_data := (cur_data w)\<lparr>sd_exp_date := Some (isoformat d)\<rparr>\<rparr>))"
  by (simp add: process_medicine_exp_date_text_def Let_def)

lemma date_select_past:
  "make_date y m dy = Some d \<Longrightarrow> date_less d (today e) \<Longrightarrow>
   handle_date_select e user_id cb y m (Some dy) w =
     (None, emit (AnswerCallback (Some DatePastAlertText) True) w)"
  by (simp add: handle_date_select_def Let_def)

lemma date_select_accepted:
  "make_date y m dy = Some d \<Longrightarrow> \<not> date_less d (today e) \<Longrightarrow> cur_state w = Some waiting_for_exp_date \<Longrightarrow>
   handle_date_select e user_id cb y m (Some dy) w =
     (None,
      let w2 = (emit (AnswerCallback (Some (DateChosenText (isoformat d))) False) w)
                 \<lparr>cur_data := (cur_data w)\<lparr>sd_exp_date := Some (isoformat d)\<rparr>\<rparr>;
          message_id_to_use = (case sd_calendar_message_id (cur_data w) of
                                 Some (IntId i) \<Rightarrow> Some (IntId i) | _ \<Rightarrow> None)
      in if truthy_int (sd_prompt_chat_id (cur_data w)) \<and> truthy_msg message_id_to_use
         then save_new_medicine e user_id (sd_prompt_chat_id (cur_data w)) message_id_to_use w2
         else clear w2)"
  by (simp add: handle_date_select_def Let_def)

lemma save_new_medicine_inserts:
  assumes "sd_name (cur_data w) = Some n" "n \<noteq> []" "sd_name_lower (cur_data w) = Some nl" "nl \<noteq> []"
    "sd_quantity (cur_data w) = Some q" "q \<noteq> []" "sd_notes (cur_data w) = Some nt" "nt \<noteq> []"
    "sd_exp_date (cur_data w) = Some ex" "ex \<noteq> []"
    "(user_id, nl) \<notin> index_key ` set (docs (coll w))"
  shows "docs (coll (save_new_medicine e user_id c m w)) =
           docs (coll w) @ [\<lparr>oid = next_oid (coll w), m_name = n, m_name_lower = nl, m_quantity = q,
                            m_notes = nt, m_exp_date = ex, m_added_by = user_id\<rparr>]"
proof -
  have a: "all_collected (cur_data w)" using assms by (simp add: all_collected_iff)
  have d: "med_doc_of (cur_data w) user_id =
            Some \<lparr>oid = 0, m_name = n, m_name_lower = nl, m_quantity = q,
                            m_notes = nt, m_exp_date = ex, m_added_by = user_id\<rparr>"
    using assms by (simp add: med_doc_of_def)
  have i: "insert_one \<lparr>oid = 0, m_name = n, m_name_lower = nl, m_quantity = q,
                            m_notes = nt, m_exp_date = ex, m_added_by = user_id\<rparr> (coll w) =
       Inr ((coll w)\<lparr>docs := docs (coll w) @ [\<lparr>oid = next_oid (coll w), m_name = n, m_name_lower = nl, m_quantity = q,
                            m_notes = nt, m_exp_date = ex, m_added_by = user_id\<rparr>], next_oid := Suc (next_oid (coll w))\<rparr>)"
    using assms(11) by (simp add: insert_one_def index_key_def)
  show ?thesis
    by (simp add: save_new_medicine_def Let_def a d i)
qed

lemma isoformat_nonempty [simp]: "isoformat d \<noteq> []"
  by (simp add: isoformat_def)

text \<open>
  C7. In state \<open>waiting_for_exp_date\<close>: a typed text that \<open>strptime\<close> does not parse
  is answered with the format message, a typed date before today with the "in the past"
  message, and a calendar day before today with an alert; each of these only adds that
  one request, so the state is still \<open>waiting_for_exp_date\<close> and the data and the
  collection are unchanged. A typed or selected date equal to today is accepted: the
  commit step runs, the state is left, and with the other values collected and the name
  not taken the document is inserted with today's date.
\<close>

theorem expiry_rejected_unless_today_or_later:
  assumes "cur_state w = Some waiting_for_exp_date"
  shows
   "(strptime_Ymd (digit_value e) (strip t) = None \<longrightarrow>
       process_medicine_exp_date_text e user_id t w = emit (Reply DateBadFormatText) w)
    \<and> (strptime_Ymd (digit_value e) (strip t) = Some d \<and> date_less d (today e) \<longrightarrow>
       process_medicine_exp_date_text e user_id t w = emit (Reply DateInPastText) w)
    \<and> (make_date y m dy = Some d' \<and> date_less d' (today e) \<longrightarrow>
       handle_date_select e user_id cb y m (Some dy) w =
         (None, emit (AnswerCallback (Some DatePastAlertText) True) w))
    \<and> (cur_state (emit r w) = Some waiting_for_exp_date \<and> cur_data (emit r w) = cur_data w \<and>
        coll (emit r w) = coll w \<and> sent (emit r w) = sent w @ [r])
    \<and> (strptime_Ymd (digit_value e) (strip t) = Some (today e) \<longrightarrow>
        cur_state (process_medicine_exp_date_text e user_id t w) = None \<and>
        (sd_name (cur_data w) = Some n \<and> n \<noteq> [] \<and> sd_name_lower (cur_data w) = Some nl \<and> nl \<noteq> [] \<and>
         sd_quantity (cur_data w) = Some q \<and> q \<noteq> [] \<and> sd_notes (cur_data w) = Some nt \<and> nt \<noteq> [] \<and>
         (user_id, nl) \<notin> index_key ` set (docs (coll w)) \<longrightarrow>
         docs (coll (process_medicine_exp_date_text e user_id t w)) =
           docs (coll w) @ [\<lparr>oid = next_oid (coll w), m_name = n, m_name_lower = nl, m_quantity = q,
                            m_notes = nt, m_exp_date = isoformat (today e), m_added_by = user_id\<rparr>]))
    \<and> (make_date y m dy = Some (today e) \<longrightarrow>
        cur_state (snd (handle_date_select e user_id cb y m (Some dy) w)) = None \<and>
        (sd_name (cur_data w) = Some n \<and> n \<noteq> [] \<and> sd_name_lower (cur_data w) = Some nl \<and> nl \<noteq> [] \<and>
         sd_quantity (cur_data w) = Some q \<and> q \<noteq> [] \<and> sd_notes (cur_data w) = Some nt \<and> nt \<noteq> [] \<and>
         (user_id, nl) \<notin> index_key ` set (docs (coll w)) \<and>
         sd_prompt_chat_id (cur_data w) = Some c \<and> c \<noteq> 0 \<and>
         sd_calendar_message_id (cur_data w) = Some (IntId i) \<and> i \<noteq> 0 \<longrightarrow>
         docs (coll (snd (handle_date_select e user_id cb y m (Some dy) w))) =
           docs (coll w) @ [\<lparr>oid = next_oid (coll w), m_name = n, m_name_lower = nl, m_quantity = q,
                            m_notes = nt, m_exp_date = isoformat (today e), m_added_by = user_id\<rparr>]))"
proof -
  have c5: "cur_state (process_medicine_exp_date_text e user_id t w) = None"
    if "strptime_Ymd (digit_value e) (strip t) = Some (today e)"
    using exp_date_text_accepted[OF that date_less_irrefl] by (simp add: save_new_medicine_state)
  have d5: "docs (coll (process_medicine_exp_date_text e user_id t w)) =
           docs (coll w) @ [\<lparr>oid = next_oid (coll w), m_name = n, m_name_lower = nl, m_quantity = q,
                            m_notes = nt, m_exp_date = isoformat (today e), m_added_by = user_id\<rparr>]"
    if "strptime_Ymd (digit_value e) (strip t) = Some (today e)"
      "sd_name (cur_data w) = Some n" "n \<noteq> []" "sd_name_lower (cur_data w) = Some nl" "nl \<noteq> []"
      "sd_quantity (cur_data w) = Some q" "q \<noteq> []" "sd_notes (cur_data w) = Some nt" "nt \<noteq> []"
      "(user_id, nl) \<notin> index_key ` set (docs (coll w))"
    unfolding exp_date_text_accepted[OF that(1) date_less_irrefl]
    using that by (subst save_new_medicine_inserts[where n=n and nl=nl and q=q and nt=nt and ex="isoformat (today e)"]) simp_all
  have c6: "cur_state (snd (handle_date_select e user_id cb y m (Some dy) w)) = None"
    if "make_date y m dy = Some (today e)"
    unfolding date_select_accepted[OF that date_less_irrefl assms]
    by (simp add: Let_def save_new_medicine_state)
  have d6: "docs (coll (snd (handle_date_select e user_id cb y m (Some dy) w))) =
           docs (coll w) @ [\<lparr>oid = next_oid (coll w), m_name = n, m_name_lower = nl, m_quantity = q,
                            m_notes = nt, m_exp_date = isoformat (today e), m_added_by = user_id\<rparr>]"
    if "make_date y m dy = Some (today e)"
      "sd_name (cur_data w) = Some n" "n \<noteq> []" "sd_name_lower (cur_data w) = Some nl" "nl \<noteq> []"
      "sd_quantity (cur_data w) = Some q" "q \<noteq> []" "sd_notes (cur_data w) = Some nt" "nt \<noteq> []"
      "(user_id, nl) \<notin> index_key ` set (docs (coll w))"
      "sd_prompt_chat_id (cur_data w) = Some c" "c \<noteq> 0"
      "sd_calendar_message_id (cur_data w) = Some (IntId i)" "i \<noteq> 0"
    unfolding date_select_accepted[OF that(1) date_less_irrefl assms]
    using that
    by (simp add: Let_def truthy_int_def truthy_msg_def)
       (subst save_new_medicine_inserts[where n=n and nl=nl and q=q and nt=nt and ex="isoformat (today e)"]; simp)
  show ?thesis
    using assms exp_date_text_bad_format[of e t user_id w] exp_date_text_past[of e t d user_id w]
      date_select_past[of y m dy d' e user_id cb w] c5 c6 d5 d6
    by simp
qed

lemmas strptime_defs = strptime_Ymd_def year_digits_def after_dash_def month_alternatives_def
  day_alternatives_def make_date_def valid_date_def days_in_month_def is_leap_def
  ascii_digit_value_def strip_def is_space_def

lemma example_parse_2020:
  "strptime_Ymd (digit_value example_env) (strip [50,48,50,48,45,48,49,45,48,49]) =
     Some \<lparr>year = 2020, month = 1, day = 1\<rparr>"
  by (simp add: strptime_defs example_env_def)

lemma example_parse_today:
  "strptime_Ymd (digit_value example_env) (strip [32,50,48,50,53,45,54,45,49,53]) = Some (today example_env)"
  by (simp add: strptime_defs example_env_def)

lemma example_parse_junk:
  "strptime_Ymd (digit_value example_env) (strip [50,48,50,53,45,49,51,45,48,49]) = None"
  by (simp add: strptime_defs example_env_def)

lemma example_make_date:
  "make_date 2025 6 14 = Some \<lparr>year = 2025, month = 6, day = 14\<rparr>"
  by (simp add: make_date_def valid_date_def days_in_month_def is_leap_def)

lemma example_state: "cur_state example_add_world = Some waiting_for_exp_date"
  by (simp add: example_add_world_def)

lemma example_keys: "(7, [122, 105, 110, 99]) \<notin> index_key ` set (docs (coll example_add_world))"
  by (simp add: example_add_world_def example_coll_def example_docs_def example_med_def index_key_def)

theorem expiry_rejected_unless_today_or_later_witness:
  "process_medicine_exp_date_text example_env 7 [50,48,50,53,45,49,51,45,48,49] example_add_world =
     emit (Reply DateBadFormatText) example_add_world
   \<and> process_medicine_exp_date_text example_env 7 [50,48,50,48,45,48,49,45,48,49] example_add_world =
     emit (Reply DateInPastText) example_add_world
   \<and> handle_date_select example_env 7 \<lparr>cb_message = Some (7, 40), cb_inline_message_id = None\<rparr>
       2025 6 (Some 14) example_add_world =
     (None, emit (AnswerCallback (Some DatePastAlertText) True) example_add_world)
   \<and> cur_state (emit (Reply DateInPastText) example_add_world) = Some waiting_for_exp_date
   \<and> docs (coll (process_medicine_exp_date_text example_env 7 [32,50,48,50,53,45,54,45,49,53]
        example_add_world)) =
      example_docs @ [\<lparr>oid = 13, m_name = [90, 105, 110, 99], m_name_lower = [122, 105, 110, 99],
         m_quantity = [49, 48], m_notes = [45], m_exp_date = [50,48,50,53,45,48,54,45,49,53],
         m_added_by = 7\<rparr>]"
proof -
  have past1: "date_less \<lparr>year = 2020, month = 1, day = 1\<rparr> (today example_env)"
    by (simp add: date_less_def example_env_def)
  have past2: "date_less \<lparr>year = 2025, month = 6, day = 14\<rparr> (today example_env)"
    by (simp add: date_less_def example_env_def)
  have iso: "isoformat (today example_env) = [50,48,50,53,45,48,54,45,49,53]"
    by (simp add: isoformat_def digit_char_def example_env_def)
  have data: "sd_name (cur_data example_add_world) = Some [90, 105, 110, 99]"
    "sd_name_lower (cur_data example_add_world) = Some [122, 105, 110, 99]"
    "sd_quantity (cur_data example_add_world) = Some [49, 48]"
    "sd_notes (cur_data example_add_world) = Some [45]"
    "docs (coll example_add_world) = example_docs" "next_oid (coll example_add_world) = 13"
    by (simp_all add: example_add_world_def example_add_data_def example_coll_def)
  note T = expiry_rejected_unless_today_or_later[OF example_state, where e = example_env and user_id = 7]
  have ne: "[90, 105, 110, 99] \<noteq> ([]::nat list)" "[122, 105, 110, 99] \<noteq> ([]::nat list)"
    "[49, 48] \<noteq> ([]::nat list)" "[45] \<noteq> ([]::nat list)"
    by simp_all
  have a: "process_medicine_exp_date_text example_env 7 [50,48,50,53,45,49,51,45,48,49] example_add_world =
     emit (Reply DateBadFormatText) example_add_world"
    using T[where t = "[50,48,50,53,45,49,51,45,48,49]"] example_parse_junk by blast
  have b: "process_medicine_exp_date_text example_env 7 [50,48,50,48,45,48,49,45,48,49] example_add_world =
     emit (Reply DateInPastText) example_add_world"
    using T[where t = "[50,48,50,48,45,48,49,45,48,49]" and d = "\<lparr>year = 2020, month = 1, day = 1\<rparr>"]
      example_parse_2020 past1 by blast
  have c: "handle_date_select example_env 7 \<lparr>cb_message = Some (7, 40), cb_inline_message_id = None\<rparr>
       2025 6 (Some 14) example_add_world =
     (None, emit (AnswerCallback (Some DatePastAlertText) True) example_add_world)"
    using T[where y = 2025 and m = 6 and dy = 14 and d' = "\<lparr>year = 2025, month = 6, day = 14\<rparr>"
          and cb = "\<lparr>cb_message = Some (7, 40), cb_inline_message_id = None\<rparr>"]
      example_make_date past2 by blast
  have d: "cur_state (emit (Reply DateInPastText) example_add_world) = Some waiting_for_exp_date"
    using T[where r = "Reply DateInPastText"] by blast
  have e: "docs (coll (process_medicine_exp_date_text example_env 7 [32,50,48,50,53,45,54,45,49,53]
        example_add_world)) =
      docs (coll example_add_world) @
        [\<lparr>oid = next_oid (coll example_add_world), m_name = [90, 105, 110, 99],
          m_name_lower = [122, 105, 110, 99], m_quantity = [49, 48], m_notes = [45],
          m_exp_date = isoformat (today example_env), m_added_by = 7\<rparr>]"
    using T[where t = "[32,50,48,50,53,45,54,45,49,53]" and n = "[90, 105, 110, 99]"
          and nl = "[122, 105, 110, 99]" and q = "[49, 48]" and nt = "[45]"]
      example_parse_today data(1-4) ne example_keys by blast
  show ?thesis
    using a b c d e by (simp add: iso data)
qed

section \<open>Cancelling a flow\<close>

text \<open>
  C9. In every state of the add and edit flows, the cancel command or cancel word
  (\<open>cancel_handler\<close>) and the cancel button (\<open>cancel_action_callback\<close>) clear the state and
  the data of the conversation and leave the collection as it was: nothing is inserted,
  updated or deleted. When the conversation is bound to a message identity, the main
  menu is rendered by an edit of that message (followed by a new message with the same
  menu only if the gateway reports the ordinary message gone).
\<close>

theorem cancel_clears_and_shows_main_menu:
  assumes "cur_state w \<noteq> None"
  shows
    "cur_state (cancel_handler e w) = None \<and> cur_data (cancel_handler e w) = empty_data \<and>
     coll (cancel_handler e w) = coll w \<and>
     cur_state (cancel_action_callback e cb w) = None \<and>
     cur_data (cancel_action_callback e cb w) = empty_data \<and>
     coll (cancel_action_callback e cb w) = coll w \<and>
     (bound_identity (cur_data w) = Some tgt \<longrightarrow>
        sent (cancel_handler e w) =
          sent w @ [DeleteMessage, EditMessageText tgt MainMenuText MainMenuKeyboard] @
            (if truthy_str (sd_inline_message_id (cur_data w)) then []
             else fallback_send e (Suc (length (sent w))) (sd_prompt_chat_id (cur_data w))
                    MainMenuText MainMenuKeyboard) \<and>
        sent (cancel_action_callback e cb w) =
          sent w @ [EditMessageText tgt MainMenuText MainMenuKeyboard] @
            (if truthy_str (sd_inline_message_id (cur_data w)) then []
             else fallback_send e (length (sent w)) (sd_prompt_chat_id (cur_data w))
                    MainMenuText MainMenuKeyboard) @
            [AnswerCallback (Some CancelledText) False])"
  using cancel_handler_frame[OF assms, of e] cancel_action_callback_frame[OF assms, of e cb]
    cancel_handler_sent[OF assms, of tgt e] cancel_action_callback_sent[OF assms, of tgt e cb]
  by simp

lemma example_add_bound: "bound_identity (cur_data example_add_world) = Some (Ordinary 7 (IntId 40))"
  by (simp add: bound_identity_def example_add_world_def example_add_data_def empty_data_def
      edit_target_def or_msg_def truthy_msg_def truthy_str_def truthy_int_def)

lemma example_edit_bound: "bound_identity (cur_data example_edit_world) = Some (Inline [116, 111, 107])"
  by (simp add: bound_identity_def example_edit_world_def example_edit_data_def empty_data_def
      edit_target_def or_msg_def truthy_msg_def truthy_str_def truthy_int_def)

theorem cancel_clears_and_shows_main_menu_witness:
  "cur_state (cancel_handler example_env example_add_world) = None
   \<and> coll (cancel_handler example_env example_add_world) = example_coll
   \<and> sent (cancel_handler example_env example_add_world) =
       [DeleteMessage, EditMessageText (Ordinary 7 (IntId 40)) MainMenuText MainMenuKeyboard]
   \<and> cur_state (cancel_action_callback example_env
         \<lparr>cb_message = None, cb_inline_message_id = Some [116, 111, 107]\<rparr> example_edit_world) = None
   \<and> coll (cancel_action_callback example_env
         \<lparr>cb_message = None, cb_inline_message_id = Some [116, 111, 107]\<rparr> example_edit_world) = example_coll
   \<and> sent (cancel_action_callback example_env
         \<lparr>cb_message = None, cb_inline_message_id = Some [116, 111, 107]\<rparr> example_edit_world) =
       [EditMessageText (Inline [116, 111, 107]) MainMenuText MainMenuKeyboard,
        AnswerCallback (Some CancelledText) False]"
proof -
  have s1: "cur_state example_add_world \<noteq> None" by (simp add: example_add_world_def)
  have s2: "cur_state example_edit_world \<noteq> None" by (simp add: example_edit_world_def)
  have f1: "coll example_add_world = example_coll" "sent example_add_world = []"
    "\<not> truthy_str (sd_inline_message_id (cur_data example_add_world))"
    "sd_prompt_chat_id (cur_data example_add_world) = Some 7"
    by (simp_all add: example_add_world_def example_add_data_def empty_data_def truthy_str_def)
  have f2: "coll example_edit_world = example_coll" "sent example_edit_world = []"
    "truthy_str (sd_inline_message_id (cur_data example_edit_world))"
    by (simp_all add: example_edit_world_def example_edit_data_def empty_data_def truthy_str_def)
  have fb: "fallback_send example_env n c t k = []" for n c t k
    by (simp add: fallback_send_def example_env_def split: option.splits)
  show ?thesis
    using cancel_clears_and_shows_main_menu[OF s1, where e = example_env and tgt = "Ordinary 7 (IntId 40)"]
      cancel_clears_and_shows_main_menu[OF s2, where e = example_env and tgt = "Inline [116, 111, 107]"
        and cb = "\<lparr>cb_message = None, cb_inline_message_id = Some [116, 111, 107]\<rparr>"]
    by (simp add: example_add_bound example_edit_bound f1 f2 fb)
qed

section \<open>One record per owner and name\<close>

lemma reachable_index_holds: "reachable w \<Longrightarrow> index_holds (coll w)"
proof (induction rule: reachable.induct)
  case (start c w)
  then show ?case by (simp add: index_holds_create_db_indexes)
next
  case (no_write w w')
  then show ?case by simp
next
  case (exp_date_text w e user_id t)
  from exp_date_text.IH show ?case by (rule index_holds_process_medicine_exp_date_text)
next
  case (date_select w e user_id cb y m dy)
  from date_select.IH show ?case by (rule index_holds_handle_date_select)
next
  case (new_value_text w e user_id t)
  from new_value_text.IH show ?case by (rule index_holds_process_new_value_text)
next
  case (delete_confirm w e user_id cb mid)
  from delete_confirm.IH show ?case by (rule index_holds_delete_medicine_confirm)
qed

lemma distinct_key_at_most_one:
  "distinct (map k ds) \<Longrightarrow> length (filter (\<lambda>d. k d = x) ds) \<le> 1"
proof (induction ds)
  case Nil
  then show ?case by simp
next
  case (Cons a ds)
  show ?case
  proof (cases "k a = x")
    case True
    with Cons.prems have "filter (\<lambda>d. k d = x) ds = []"
      by (auto simp: filter_empty_conv image_iff)
    with True show ?thesis by simp
  next
    case False
    with Cons show ?thesis by simp
  qed
qed

lemma save_new_medicine_duplicate:
  assumes ih: "index_holds (coll w)" and ac: "all_collected (cur_data w)"
    and n: "sd_name (cur_data w) = Some n" and nl: "sd_name_lower (cur_data w) = Some nl"
    and ex: "(user_id, nl) \<in> index_key ` set (docs (coll w))"
  shows "coll (save_new_medicine e user_id chat_id message_id w) = coll w"
    "cur_state (save_new_medicine e user_id chat_id message_id w) = None"
    "cur_data (save_new_medicine e user_id chat_id message_id w) = empty_data"
    "logged (save_new_medicine e user_id chat_id message_id w) = logged w @ [DuplicateKeyLog n]"
    "sent (save_new_medicine e user_id chat_id message_id w) =
       sent w @ (case edit_target chat_id message_id None of
                   None \<Rightarrow> []
                 | Some tgt \<Rightarrow>
                     EditMessageText tgt (DuplicateOnInsertText n) MainMenuKeyboard #
                     fallback_send e (length (sent w)) chat_id (DuplicateOnInsertText n) MainMenuKeyboard)"
proof -
  from ac n nl obtain q nt x where
    d: "med_doc_of (cur_data w) user_id =
          Some \<lparr>oid = 0, m_name = n, m_name_lower = nl, m_quantity = q, m_notes = nt,
                m_exp_date = x, m_added_by = user_id\<rparr>"
    by (auto simp: all_collected_iff med_doc_of_def)
  have i: "insert_one \<lparr>oid = 0, m_name = n, m_name_lower = nl, m_quantity = q, m_notes = nt,
                m_exp_date = x, m_added_by = user_id\<rparr> (coll w) = Inl DuplicateKeyError"
    using ih ex by (intro insert_one_duplicate) (simp_all add: index_key_def)
  show "coll (save_new_medicine e user_id chat_id message_id w) = coll w"
    "cur_state (save_new_medicine e user_id chat_id message_id w) = None"
    "cur_data (save_new_medicine e user_id chat_id message_id w) = empty_data"
    "logged (save_new_medicine e user_id chat_id message_id w) = logged w @ [DuplicateKeyLog n]"
    by (simp_all add: save_new_medicine_def Let_def ac d i)
  show "sent (save_new_medicine e user_id chat_id message_id w) =
       sent w @ (case edit_target chat_id message_id None of
                   None \<Rightarrow> []
                 | Some tgt \<Rightarrow>
                     EditMessageText tgt (DuplicateOnInsertText n) MainMenuKeyboard #
                     fallback_send e (length (sent w)) chat_id (DuplicateOnInsertText n) MainMenuKeyboard)"
  proof (cases "truthy_int chat_id \<and> truthy_msg message_id")
    case True
    then show ?thesis
      by (simp add: save_new_medicine_def Let_def ac d i sent_safe_edit_message
          split: option.splits)
  next
    case False
    then have "edit_target chat_id message_id None = None"
      by (simp add: edit_target_None_iff truthy_str_def)
    with False show ?thesis
      by (simp add: save_new_medicine_def Let_def ac d i sent_safe_edit_message)
  qed
qed

text \<open>
  C1. In every world the program reaches from a start on a collection without duplicate
  keys, the collection holds at most one document for an owner and a lower-cased name.
  \<open>insert_one\<close> of a document whose owner and \<open>name_lower\<close> are stored already fails
  with \<open>DuplicateKeyError\<close>, by the unique index and not by a prior lookup; and
  \<open>_save_new_medicine\<close> then leaves the collection as it was, clears the conversation,
  logs the duplicate and shows the duplicate message on the given message.
\<close>

theorem one_record_per_owner_and_name:
  assumes "reachable w"
  shows
    "length (filter (\<lambda>d. m_added_by d = user_id \<and> m_name_lower d = str_lower e n) (docs (coll w))) \<le> 1
     \<and> ((\<exists>d \<in> set (docs (coll w)). m_added_by d = m_added_by doc \<and> m_name_lower d = m_name_lower doc) \<longrightarrow>
          insert_one doc (coll w) = Inl DuplicateKeyError)
     \<and> (all_collected (cur_data w) \<and> sd_name (cur_data w) = Some nm \<and>
         sd_name_lower (cur_data w) = Some nl \<and>
         (\<exists>d \<in> set (docs (coll w)). m_added_by d = user_id \<and> m_name_lower d = nl) \<longrightarrow>
          coll (save_new_medicine e user_id chat_id message_id w) = coll w \<and>
          cur_state (save_new_medicine e user_id chat_id message_id w) = None \<and>
          cur_data (save_new_medicine e user_id chat_id message_id w) = empty_data \<and>
          logged (save_new_medicine e user_id chat_id message_id w) = logged w @ [DuplicateKeyLog nm] \<and>
          sent (save_new_medicine e user_id chat_id message_id w) =
            sent w @ (case edit_target chat_id message_id None of
                        None \<Rightarrow> []
                      | Some tgt \<Rightarrow>
                          EditMessageText tgt (DuplicateOnInsertText nm) MainMenuKeyboard #
                          fallback_send e (length (sent w)) chat_id (DuplicateOnInsertText nm)
                            MainMenuKeyboard))"
proof -
  have ih: "index_holds (coll w)" using assms by (rule reachable_index_holds)
  have eq: "(\<lambda>d. m_added_by d = user_id \<and> m_name_lower d = str_lower e n) =
            (\<lambda>d. index_key d = (user_id, str_lower e n))"
    by (auto simp: index_key_def)
  have one: "length (filter (\<lambda>d. m_added_by d = user_id \<and> m_name_lower d = str_lower e n)
               (docs (coll w))) \<le> 1"
    unfolding eq using ih by (intro distinct_key_at_most_one) (simp add: index_holds_def)
  have two: "insert_one doc (coll w) = Inl DuplicateKeyError"
    if "\<exists>d \<in> set (docs (coll w)). m_added_by d = m_added_by doc \<and> m_name_lower d = m_name_lower doc"
  proof -
    from that obtain d where "d \<in> set (docs (coll w))" "index_key d = index_key doc"
      by (auto simp: index_key_def)
    then have "index_key doc \<in> index_key ` set (docs (coll w))"
      by (metis imageI)
    with ih show ?thesis by (rule insert_one_duplicate)
  qed
  have key: "(user_id, nl) \<in> index_key ` set (docs (coll w))"
    if "\<exists>d \<in> set (docs (coll w)). m_added_by d = user_id \<and> m_name_lower d = nl"
  proof -
    from that obtain d where "d \<in> set (docs (coll w))" "index_key d = (user_id, nl)"
      by (auto simp: index_key_def)
    then show ?thesis by (metis imageI)
  qed
  show ?thesis
    by (simp add: one[simplified] two key
      save_new_medicine_duplicate[OF ih, where n = nm and nl = nl and user_id = user_id and e = e
        and chat_id = chat_id and message_id = message_id])
qed

lemma example_add_world_reachable: "reachable example_add_world"
proof (rule reachable.start[where c = "example_coll\<lparr>unique_index := False\<rparr>"])
  show "distinct (map index_key (docs (example_coll\<lparr>unique_index := False\<rparr>)))"
    by (simp add: example_coll_def example_docs_def example_med_def index_key_def)
  then show "coll example_add_world = create_db_indexes (example_coll\<lparr>unique_index := False\<rparr>)"
    by (simp add: example_add_world_def create_db_indexes_def create_unique_index_def
        example_coll_def)
qed

lemma example_dup_world_reachable: "reachable example_dup_world"
  by (rule reachable.no_write[OF example_add_world_reachable]) (simp add: example_dup_world_def)

theorem one_record_per_owner_and_name_witness:
  "length (filter (\<lambda>d. m_added_by d = 7 \<and> m_name_lower d = str_lower example_env [65, 48, 51])
      (docs (coll example_dup_world))) \<le> 1
   \<and> insert_one ((example_med 3)\<lparr>oid := 0, m_name := [97, 48, 51]\<rparr>) (coll example_dup_world) =
       Inl DuplicateKeyError
   \<and> coll (save_new_medicine example_env 7 (Some 7) (Some (IntId 40)) example_dup_world) =
       example_coll
   \<and> cur_state (save_new_medicine example_env 7 (Some 7) (Some (IntId 40)) example_dup_world) = None
   \<and> sent (save_new_medicine example_env 7 (Some 7) (Some (IntId 40)) example_dup_world) =
       [EditMessageText (Ordinary 7 (IntId 40)) (DuplicateOnInsertText [65, 48, 51]) MainMenuKeyboard]"
proof -
  have c: "coll example_dup_world = example_coll" "sent example_dup_world = []"
    by (simp_all add: example_dup_world_def example_add_world_def)
  have ex1: "\<exists>d \<in> set (docs (coll example_dup_world)).
          m_added_by d = m_added_by ((example_med 3)\<lparr>oid := 0, m_name := [97, 48, 51]\<rparr>) \<and>
          m_name_lower d = m_name_lower ((example_med 3)\<lparr>oid := 0, m_name := [97, 48, 51]\<rparr>)"
    by (simp add: c example_coll_def example_docs_def example_med_def)
  have ex2: "\<exists>d \<in> set (docs (coll example_dup_world)). m_added_by d = 7 \<and> m_name_lower d = [97, 48, 51]"
    by (simp add: c example_coll_def example_docs_def example_med_def)
  have d: "all_collected (cur_data example_dup_world)"
    "sd_name (cur_data example_dup_world) = Some [65, 48, 51]"
    "sd_name_lower (cur_data example_dup_world) = Some [97, 48, 51]"
    by (simp_all add: example_dup_world_def example_add_world_def example_add_data_def
        empty_data_def all_collected_def truthy_str_def)
  have t: "edit_target (Some 7) (Some (IntId 40)) None = Some (Ordinary 7 (IntId 40))"
    by (simp add: edit_target_def truthy_str_def truthy_int_def truthy_msg_def)
  have fb: "fallback_send example_env n ch tx k = []" for n ch tx k
    by (simp add: fallback_send_def example_env_def split: option.splits)
  note T = one_record_per_owner_and_name[OF example_dup_world_reachable,
        where user_id = 7 and e = example_env and n = "[65, 48, 51]"
          and doc = "(example_med 3)\<lparr>oid := 0, m_name := [97, 48, 51]\<rparr>"
          and nm = "[65, 48, 51]" and nl = "[97, 48, 51]" and chat_id = "Some 7"
          and message_id = "Some (IntId 40)"]
  from T ex1 ex2 d show ?thesis
    by (simp add: c t fb)
qed

section \<open>Resubmitting the stored value\<close>

lemma same_key_same_doc:
  "distinct (map k ds) \<Longrightarrow> d \<in> set ds \<Longrightarrow> r \<in> set ds \<Longrightarrow> k d = k r \<Longrightarrow> d = r"
  by (metis distinct_map inj_on_def)

lemma same_value_validates:
  assumes f: "find_one (\<lambda>d. oid d = ob \<and> m_added_by d = user_id) c = Some r"
    and k: "distinct (map index_key (docs c))"
    and same:
      "(fld = ''name'' \<and> strip t = m_name r \<and> str_lower e (strip t) = m_name_lower r \<and> strip t \<noteq> []) \<or>
       (fld = ''quantity'' \<and> strip t = m_quantity r \<and> strip t \<noteq> []) \<or>
       (fld = ''notes'' \<and> strip t = m_notes r \<and> strip t \<noteq> []) \<or>
       (fld = ''exp_date'' \<and> strptime_Ymd (digit_value e) (strip t) = Some dt \<and>
          \<not> date_less dt (today e) \<and> isoformat dt = m_exp_date r)"
  shows "\<exists>u v. validate_new_value e user_id (OidStr ob) fld (strip t) c = Inr (None, u, v) \<and>
           u \<noteq> no_update \<and> apply_set u r = r"
proof -
  from f have rin: "r \<in> set (docs c)" and rq: "oid r = ob" "m_added_by r = user_id"
    using find_Some_mem[of _ "docs c" r] find_Some_sat[of _ "docs c" r]
    by (auto simp: find_one_def)
  consider (c_name) "fld = ''name''" "strip t = m_name r" "str_lower e (strip t) = m_name_lower r" "strip t \<noteq> []"
    | (c_quantity) "fld = ''quantity''" "strip t = m_quantity r" "strip t \<noteq> []"
    | (c_notes) "fld = ''notes''" "strip t = m_notes r" "strip t \<noteq> []"
    | (c_exp) "fld = ''exp_date''" "strptime_Ymd (digit_value e) (strip t) = Some dt"
        "\<not> date_less dt (today e)" "isoformat dt = m_exp_date r"
    using same by blast
  then show ?thesis
  proof cases
    case c_name
    have "List.find (\<lambda>d. m_name_lower d = str_lower e (strip t) \<and> m_added_by d = user_id \<and> oid d \<noteq> ob) (docs c) = None"
    proof -
      have "oid d = ob" if "d \<in> set (docs c)" "m_name_lower d = str_lower e (strip t)" "m_added_by d = user_id" for d
      proof -
        have "index_key d = index_key r" using that c_name(3) rq by (simp add: index_key_def)
        with k that(1) rin have "d = r" by (rule same_key_same_doc)
        with rq show ?thesis by simp
      qed
      then show ?thesis unfolding find_None_iff by blast
    qed
    then have "validate_new_value e user_id (OidStr ob) fld (strip t) c =
        Inr (None, no_update\<lparr>u_name := Some (strip t), u_name_lower := Some (str_lower e (strip t))\<rparr>,
             StrValue (strip t))"
      using c_name by (simp add: validate_new_value_def Let_def ObjectId_def find_one_def)
    moreover have "apply_set (no_update\<lparr>u_name := Some (strip t), u_name_lower := Some (str_lower e (strip t))\<rparr>) r = r"
      using c_name by (simp add: apply_set_def no_update_def)
    moreover have "no_update\<lparr>u_name := Some (strip t), u_name_lower := Some (str_lower e (strip t))\<rparr> \<noteq> no_update"
      by (simp add: no_update_def)
    ultimately show ?thesis by blast
  next
    case c_quantity
    then have "validate_new_value e user_id (OidStr ob) fld (strip t) c =
        Inr (None, no_update\<lparr>u_quantity := Some (strip t)\<rparr>, StrValue (strip t))"
      by (simp add: validate_new_value_def)
    moreover have "apply_set (no_update\<lparr>u_quantity := Some (strip t)\<rparr>) r = r"
      using c_quantity by (simp add: apply_set_def no_update_def)
    moreover have "no_update\<lparr>u_quantity := Some (strip t)\<rparr> \<noteq> no_update"
      by (simp add: no_update_def)
    ultimately show ?thesis by blast
  next
    case c_notes
    then have "validate_new_value e user_id (OidStr ob) fld (strip t) c =
        Inr (None, no_update\<lparr>u_notes := Some (strip t)\<rparr>, StrValue (strip t))"
      by (simp add: validate_new_value_def)
    moreover have "apply_set (no_update\<lparr>u_notes := Some (strip t)\<rparr>) r = r"
      using c_notes by (simp add: apply_set_def no_update_def)
    moreover have "no_update\<lparr>u_notes := Some (strip t)\<rparr> \<noteq> no_update"
      by (simp add: no_update_def)
    ultimately show ?thesis by blast
  next
    case c_exp
    then have "validate_new_value e user_id (OidStr ob) fld (strip t) c =
        Inr (None, no_update\<lparr>u_exp_date := Some (isoformat dt)\<rparr>, DateValue dt)"
      by (simp add: validate_new_value_def)
    moreover have "apply_set (no_update\<lparr>u_exp_date := Some (isoformat dt)\<rparr>) r = r"
      using c_exp by (simp add: apply_set_def no_update_def)
    moreover have "no_update\<lparr>u_exp_date := Some (isoformat dt)\<rparr> \<noteq> no_update"
      by (simp add: no_update_def)
    ultimately show ?thesis by blast
  qed
qed

text \<open>
  C8. In the edit flow, a typed value that passes validation and equals what the record
  holds (for the expiry date: whose ISO form is the stored one) is not an error:
  \<open>process_new_value_text\<close> raises nothing, the collection is unchanged, the log line is
  "matched but not modified", the conversation is cleared, and the detail view of the
  record is rendered on the bound message.
\<close>

theorem same_value_edit_reports_no_change:
  assumes mid: "sd_med_id (cur_data w) = Some (OidStr ob)"
    and mn: "truthy_str (sd_med_name (cur_data w))"
    and fl: "sd_field_to_edit (cur_data w) = Some fld"
    and b: "bound_identity (cur_data w) = Some tgt"
    and f: "find_one (\<lambda>d. oid d = ob \<and> m_added_by d = user_id) (coll w) = Some r"
    and o: "distinct (map oid (docs (coll w)))"
    and k: "distinct (map index_key (docs (coll w)))"
    and same:
      "(fld = ''name'' \<and> strip t = m_name r \<and> str_lower e (strip t) = m_name_lower r \<and> strip t \<noteq> []) \<or>
       (fld = ''quantity'' \<and> strip t = m_quantity r \<and> strip t \<noteq> []) \<or>
       (fld = ''notes'' \<and> strip t = m_notes r \<and> strip t \<noteq> []) \<or>
       (fld = ''exp_date'' \<and> strptime_Ymd (digit_value e) (strip t) = Some dt \<and>
          \<not> date_less dt (today e) \<and> isoformat dt = m_exp_date r)"
  shows "fst (process_new_value_text e user_id t w) = None
    \<and> coll (snd (process_new_value_text e user_id t w)) = coll w
    \<and> cur_state (snd (process_new_value_text e user_id t w)) = None
    \<and> cur_data (snd (process_new_value_text e user_id t w)) = empty_data
    \<and> logged (snd (process_new_value_text e user_id t w)) = logged w @ [MatchedNotModifiedLog]
    \<and> sent (snd (process_new_value_text e user_id t w)) =
         sent w @ [DeleteMessage,
                   EditMessageText tgt (DetailsText r)
                     (DetailsKeyboard (OidStr ob) (truthy_str (sd_inline_message_id (cur_data w))))] @
           fallback_send e (Suc (length (sent w))) (sd_prompt_chat_id (cur_data w)) (DetailsText r)
             (DetailsKeyboard (OidStr ob) (truthy_str (sd_inline_message_id (cur_data w))))"
proof -
  from same_value_validates[OF f k same] obtain u v where
    v: "validate_new_value e user_id (OidStr ob) fld (strip t) (coll w) = Inr (None, u, v)"
    and ne: "u \<noteq> no_update" and ap: "apply_set u r = r"
    by blast
  from same have fne: "fld \<noteq> []" by auto
  from f have f': "List.find (\<lambda>d. oid d = ob \<and> m_added_by d = user_id) (docs (coll w)) = Some r"
    by (simp add: find_one_def)
  note R = saved_edit_result[OF mid mn fl fne b v ne f o]
  show ?thesis
    using R by (simp add: ap replace_first_same[OF f'])
qed

lemma example_edit_bound_inline:
  "bound_identity (cur_data example_edit_world) = Some (Inline [116, 111, 107])"
  by (simp add: bound_identity_def example_edit_world_def example_edit_data_def empty_data_def
      edit_target_def or_msg_def truthy_msg_def truthy_str_def truthy_int_def)

lemma example_find_3:
  "find_one (\<lambda>d. oid d = 3 \<and> m_added_by d = 7) (coll example_edit_world) = Some (example_med 3)"
  by (simp add: find_one_def example_edit_world_def example_coll_def example_docs_def example_med_def)

lemma example_distinct:
  "distinct (map oid (docs (coll example_edit_world)))"
  "distinct (map index_key (docs (coll example_edit_world)))"
  by (simp_all add: example_edit_world_def example_coll_def example_docs_def example_med_def
      index_key_def)

lemma example_edit_fields:
  "sd_med_id (cur_data example_edit_world) = Some (OidStr 3)"
  "truthy_str (sd_med_name (cur_data example_edit_world))"
  "sd_field_to_edit (cur_data example_edit_world) = Some ''quantity''"
  "sd_inline_message_id (cur_data example_edit_world) = Some [116, 111, 107]"
  "sd_prompt_chat_id (cur_data example_edit_world) = None"
  "coll example_edit_world = example_coll" "sent example_edit_world = []"
  "logged example_edit_world = []"
  by (simp_all add: example_edit_world_def example_edit_data_def empty_data_def truthy_str_def)

theorem same_value_edit_reports_no_change_witness:
  "fst (process_new_value_text example_env 7 [32, 49] example_edit_world) = None
   \<and> coll (snd (process_new_value_text example_env 7 [32, 49] example_edit_world)) = example_coll
   \<and> cur_state (snd (process_new_value_text example_env 7 [32, 49] example_edit_world)) = None
   \<and> logged (snd (process_new_value_text example_env 7 [32, 49] example_edit_world)) =
       [MatchedNotModifiedLog]
   \<and> sent (snd (process_new_value_text example_env 7 [32, 49] example_edit_world)) =
       [DeleteMessage,
        EditMessageText (Inline [116, 111, 107]) (DetailsText (example_med 3))
          (DetailsKeyboard (OidStr 3) True)]"
proof -
  have st: "strip [32, 49] = [49]" by (simp add: strip_def is_space_def)
  have same:
    "(''quantity'' = ''name'' \<and> strip [32, 49] = m_name (example_med 3) \<and>
        str_lower example_env (strip [32, 49]) = m_name_lower (example_med 3) \<and> strip [32, 49] \<noteq> []) \<or>
     (''quantity'' = ''quantity'' \<and> strip [32, 49] = m_quantity (example_med 3) \<and> strip [32, 49] \<noteq> []) \<or>
     (''quantity'' = ''notes'' \<and> strip [32, 49] = m_notes (example_med 3) \<and> strip [32, 49] \<noteq> []) \<or>
     (''quantity'' = ''exp_date'' \<and>
        strptime_Ymd (digit_value example_env) (strip [32, 49]) = Some (today example_env) \<and>
        \<not> date_less (today example_env) (today example_env) \<and>
        isoformat (today example_env) = m_exp_date (example_med 3))"
    by (simp add: st example_med_def)
  show ?thesis
    using same_value_edit_reports_no_change[OF example_edit_fields(1,2,3) example_edit_bound_inline
        example_find_3 example_distinct same]
    by (simp add: example_edit_fields truthy_str_def)
qed

section \<open>The outcomes of saving an edit\<close>







end
